theory Spec2Isabelle
  imports Main
begin

section \<open>Project status state machine (src/supabase/triggers.sql)\<close>

text \<open>
  The enum \<open>public.project_status\<close> of migration 00001 and the BEFORE UPDATE trigger
  \<open>trigger_validate_project_status\<close>, which guards every write of
  \<open>projects.status\<close>.
\<close>

datatype project_status = DRAFT | GENERATING | GENERATED | DEPLOYING | DEPLOYED | FAILED

text \<open>The cast \<open>status::text\<close> of an enum value.\<close>

fun status_text :: "project_status \<Rightarrow> string" where
  "status_text DRAFT = ''DRAFT''"
| "status_text GENERATING = ''GENERATING''"
| "status_text GENERATED = ''GENERATED''"
| "status_text DEPLOYING = ''DEPLOYING''"
| "status_text DEPLOYED = ''DEPLOYED''"
| "status_text FAILED = ''FAILED''"

text \<open>The JSONB literal of the trigger: an object from status names to arrays of names.\<close>

definition valid_transitions :: "(string \<times> string list) list" where
  "valid_transitions =
     [(''DRAFT'', [''GENERATING'', ''FAILED'']),
      (''GENERATING'', [''GENERATED'', ''FAILED'']),
      (''GENERATED'', [''DEPLOYING'', ''DRAFT'', ''FAILED'']),
      (''DEPLOYING'', [''DEPLOYED'', ''FAILED'']),
      (''DEPLOYED'', [''DEPLOYING'', ''DRAFT'']),
      (''FAILED'', [''DRAFT'', ''GENERATING'', ''DEPLOYING''])]"

text \<open>
  \<open>RAISE EXCEPTION 'Invalid project status transition from % to %', OLD.status, NEW.status\<close>
\<close>

definition invalid_transition_message :: "project_status \<Rightarrow> project_status \<Rightarrow> string" where
  "invalid_transition_message old new =
     ''Invalid project status transition from '' @ status_text old @ '' to '' @ status_text new"

text \<open>
  The trigger function on the pair (OLD.status, NEW.status): \<open>Inr\<close> is RETURN NEW,
  \<open>Inl\<close> the raised exception. \<open>valid_transitions->key\<close> is NULL for an absent
  key, \<open>NULL ? x\<close> is NULL, and \<open>IF NOT NULL\<close> does not take the branch.
\<close>

definition trigger_validate_project_status ::
  "project_status \<Rightarrow> project_status \<Rightarrow> string + project_status" where
  "trigger_validate_project_status old new =
     (if old = new then Inr new
      else (case map_of valid_transitions (status_text old) of
              None \<Rightarrow> Inr new
            | Some targets \<Rightarrow>
                if status_text new \<notin> set targets
                then Inl (invalid_transition_message old new)
                else Inr new))"

text \<open>
  The transition relation as the specification enumerates it, for comparison with the
  trigger's table: DRAFT to GENERATING to GENERATED to DEPLOYING to DEPLOYED, FAILED
  from GENERATING or DEPLOYING, and FAILED back to DRAFT, GENERATING or DEPLOYING.
\<close>

definition spec_enumerated_transitions :: "(project_status \<times> project_status) list" where
  "spec_enumerated_transitions =
     [(DRAFT, GENERATING), (GENERATING, GENERATED), (GENERATED, DEPLOYING),
      (DEPLOYING, DEPLOYED), (GENERATING, FAILED), (DEPLOYING, FAILED),
      (FAILED, DRAFT), (FAILED, GENERATING), (FAILED, DEPLOYING)]"

section \<open>Effects: thrown values, the outside world, the trace of I/O\<close>

text \<open>
  A thrown JavaScript value: what it is an instance of (\<open>z.ZodError\<close> extends
  \<open>Error\<close>), its \<open>message\<close>, and the \<open>status\<close> property an HTTP client
  error carries.
\<close>

datatype thrown_kind = NotAnError | ErrorObject | ZodErrorObject

datatype thrown = Thrown (kind: thrown_kind) (message: string) (status: "nat option")

definition isError :: "thrown \<Rightarrow> bool" where
  "isError e = (kind e \<noteq> NotAnError)"

definition isZodError :: "thrown \<Rightarrow> bool" where
  "isZodError e = (kind e = ZodErrorObject)"

text \<open>\<open>new Error(msg)\<close>\<close>

definition Error :: "string \<Rightarrow> thrown" where
  "Error msg = Thrown ErrorObject msg None"

text \<open>\<open>error instanceof Error ? error.message : fallback\<close>\<close>

definition message_or :: "thrown \<Rightarrow> string \<Rightarrow> string" where
  "message_or e fallback = (if isError e then message e else fallback)"

text \<open>An environment variable is set and non-empty (JavaScript truthiness of a string).\<close>

definition truthy :: "string option \<Rightarrow> bool" where
  "truthy v = (case v of None \<Rightarrow> False | Some s \<Rightarrow> s \<noteq> [])"

text \<open>Decimal rendering of a number inside a template string.\<close>

definition digit_char :: "nat \<Rightarrow> char" where
  "digit_char d = char_of (48 + d)"

function show_nat :: "nat \<Rightarrow> string" where
  "show_nat n = (if n < 10 then [digit_char n] else show_nat (n div 10) @ [digit_char (n mod 10)])"
  by pat_completeness auto
termination
  by (relation "measure id") auto

declare show_nat.simps [simp del]

text \<open>\<open>String.prototype.includes\<close>\<close>

fun str_includes :: "string \<Rightarrow> string \<Rightarrow> bool" where
  "str_includes [] sub = (sub = [])"
| "str_includes (c # cs) sub = (take (length sub) (c # cs) = sub \<or> str_includes cs sub)"

text \<open>
  A JavaScript string that carries data from outside (the model's answer, a generated file's
  path) is its sequence of UTF-16 code units; the program's own literals are written as
  \<open>string\<close>.
\<close>

type_synonym jsstring = "nat list"

definition js :: "string \<Rightarrow> jsstring" where
  "js s = map of_char s"

text \<open>
  Every call that leaves the process is recorded in \<open>trace\<close>, in order;
  \<open>entered\<close> lists the adapter functions of the deploy library that were called.
\<close>

datatype event =
    GitHubRequest string
  | VercelRequest string string
  | FsCall string string
  | GitCommand string
  | Slept nat

record world =
  trace :: "event list"
  entered :: "string list"
  clock :: nat
  paths :: "string set"
  polls :: nat

text \<open>An awaited computation over a state: it resolves or rejects, and leaves a state.\<close>

type_synonym ('a, 's) eff = "'s \<Rightarrow> (thrown + 'a) \<times> 's"

type_synonym 'a io = "('a, world) eff"

definition emit :: "event \<Rightarrow> world \<Rightarrow> world" where
  "emit ev w = w\<lparr>trace := trace w @ [ev]\<rparr>"

definition enter :: "string \<Rightarrow> world \<Rightarrow> world" where
  "enter f w = w\<lparr>entered := entered w @ [f]\<rparr>"

text \<open>Sequencing of awaited calls: a rejection skips the continuation.\<close>

definition then_io :: "('a, 's) eff \<Rightarrow> ('a \<Rightarrow> ('b, 's) eff) \<Rightarrow> ('b, 's) eff" where
  "then_io m k w = (case m w of (Inl e, w1) \<Rightarrow> (Inl e, w1) | (Inr a, w1) \<Rightarrow> k a w1)"

definition return_io :: "'a \<Rightarrow> ('a, 's) eff" where
  "return_io a w = (Inr a, w)"

definition throw_io :: "thrown \<Rightarrow> ('a, 's) eff" where
  "throw_io e w = (Inl e, w)"

text \<open>\<open>try { body } catch (e) { handler(e) }\<close>\<close>

definition try_catch :: "('a, 's) eff \<Rightarrow> (thrown \<Rightarrow> ('a, 's) eff) \<Rightarrow> ('a, 's) eff" where
  "try_catch body handler w =
     (case body w of (Inl e, w1) \<Rightarrow> handler e w1 | (Inr a, w1) \<Rightarrow> (Inr a, w1))"

text \<open>
  \<open>try { body } finally { cleanup }\<close>: the cleanup runs on both exits; when it throws,
  its error replaces the outcome of the body.
\<close>

definition try_finally :: "('a, 's) eff \<Rightarrow> (unit, 's) eff \<Rightarrow> ('a, 's) eff" where
  "try_finally body cleanup w =
     (case body w of
        (r, w1) \<Rightarrow> (case cleanup w1 of (Inl e, w2) \<Rightarrow> (Inl e, w2) | (Inr _, w2) \<Rightarrow> (r, w2)))"

section \<open>JSON values and \<open>JSON.parse\<close>\<close>

text \<open>
  The value \<open>JSON.parse\<close> builds. A number keeps its lexeme (the double it denotes is
  never inspected by the program); an object keeps its members in source order, and a
  repeated key reads as its last occurrence.
\<close>

datatype json =
    JNull
  | JBool bool
  | JNumber jsstring
  | JString jsstring
  | JArray "json list"
  | JObject "(jsstring \<times> json) list"

definition TypeError :: "string \<Rightarrow> thrown" where
  "TypeError msg = Thrown ErrorObject msg None"

definition SyntaxError :: thrown where
  "SyntaxError = Thrown ErrorObject ''Unexpected token in JSON'' None"

text \<open>JSON white space: space, tab, line feed, carriage return.\<close>

definition is_ws :: "nat \<Rightarrow> bool" where
  "is_ws c = (c = 32 \<or> c = 9 \<or> c = 10 \<or> c = 13)"

definition skip_ws :: "jsstring \<Rightarrow> jsstring" where
  "skip_ws s = dropWhile is_ws s"

definition is_digit :: "nat \<Rightarrow> bool" where
  "is_digit c = (48 \<le> c \<and> c \<le> 57)"

definition hex_value :: "nat \<Rightarrow> nat option" where
  "hex_value c =
     (if 48 \<le> c \<and> c \<le> 57 then Some (c - 48)
      else if 97 \<le> c \<and> c \<le> 102 then Some (c - 87)
      else if 65 \<le> c \<and> c \<le> 70 then Some (c - 55)
      else None)"

text \<open>The character after a backslash: \<open>" \ / b f n r t\<close>.\<close>

definition unescape :: "nat \<Rightarrow> nat option" where
  "unescape c =
     (if c = 34 then Some 34 else if c = 92 then Some 92 else if c = 47 then Some 47
      else if c = 98 then Some 8 else if c = 102 then Some 12 else if c = 110 then Some 10
      else if c = 114 then Some 13 else if c = 116 then Some 9 else None)"

definition unicode_escape :: "nat \<Rightarrow> nat \<Rightarrow> nat \<Rightarrow> nat \<Rightarrow> nat option" where
  "unicode_escape a b c d =
     (case (hex_value a, hex_value b, hex_value c, hex_value d) of
        (Some h1, Some h2, Some h3, Some h4) \<Rightarrow> Some (4096 * h1 + 256 * h2 + 16 * h3 + h4)
      | _ \<Rightarrow> None)"

text \<open>
  The characters of a string after its opening quote, up to the closing quote: the decoded
  string and the rest of the input. Control characters below U+0020 are not allowed.
\<close>

fun string_body :: "jsstring \<Rightarrow> (jsstring \<times> jsstring) option" where
  "string_body [] = None"
| "string_body (c # cs) =
     (if c = 34 then Some ([], cs)
      else if c = 92 then
        (case cs of
           [] \<Rightarrow> None
         | e # rest \<Rightarrow>
             if e = 117 then
               (case rest of
                  a # b # c' # d # rest' \<Rightarrow>
                    (case unicode_escape a b c' d of
                       None \<Rightarrow> None
                     | Some u \<Rightarrow> map_option (\<lambda>(str, r). (u # str, r)) (string_body rest'))
                | _ \<Rightarrow> None)
             else
               (case unescape e of
                  None \<Rightarrow> None
                | Some u \<Rightarrow> map_option (\<lambda>(str, r). (u # str, r)) (string_body rest)))
      else if c < 32 then None
      else map_option (\<lambda>(str, r). (c # str, r)) (string_body cs))"

text \<open>
  A number: \<open>-? (0 | [1-9][0-9]*) (. [0-9]+)? ([eE] [+-]? [0-9]+)?\<close>, the longest such
  prefix; the lexeme and the rest.
\<close>

definition number_int :: "jsstring \<Rightarrow> (jsstring \<times> jsstring) option" where
  "number_int s =
     (case s of
        [] \<Rightarrow> None
      | c # cs \<Rightarrow>
          if c = 48 then Some ([c], cs)
          else if is_digit c then Some (c # takeWhile is_digit cs, dropWhile is_digit cs)
          else None)"

definition number_frac :: "jsstring \<Rightarrow> (jsstring \<times> jsstring) option" where
  "number_frac s =
     (case s of
        c # d # cs \<Rightarrow>
          if c = 46 then
            (if is_digit d then Some (c # d # takeWhile is_digit cs, dropWhile is_digit cs)
             else None)
          else Some ([], s)
      | [c] \<Rightarrow> if c = 46 then None else Some ([], s)
      | [] \<Rightarrow> Some ([], s))"

definition number_exp :: "jsstring \<Rightarrow> (jsstring \<times> jsstring) option" where
  "number_exp s =
     (case s of
        [] \<Rightarrow> Some ([], s)
      | c # cs \<Rightarrow>
          if c = 101 \<or> c = 69 then
            (let sign = (case cs of [] \<Rightarrow> [] | z # _ \<Rightarrow> if z = 43 \<or> z = 45 then [z] else []);
                 ds = drop (length sign) cs
             in if ds \<noteq> [] \<and> is_digit (hd ds)
                then Some (c # sign @ takeWhile is_digit ds, dropWhile is_digit ds)
                else None)
          else Some ([], s))"

definition number :: "jsstring \<Rightarrow> (jsstring \<times> jsstring) option" where
  "number s =
     (let sign = (case s of [] \<Rightarrow> [] | c # _ \<Rightarrow> if c = 45 then [c] else [])
      in case number_int (drop (length sign) s) of
           None \<Rightarrow> None
         | Some (i, r1) \<Rightarrow>
             (case number_frac r1 of
                None \<Rightarrow> None
              | Some (f, r2) \<Rightarrow>
                  (case number_exp r2 of
                     None \<Rightarrow> None
                   | Some (e, r3) \<Rightarrow> Some (sign @ i @ f @ e, r3))))"

text \<open>A value that is neither an object nor an array.\<close>

definition scalar :: "jsstring \<Rightarrow> (json \<times> jsstring) option" where
  "scalar s =
     (case s of
        [] \<Rightarrow> None
      | c # cs \<Rightarrow>
          if c = 34 then map_option (\<lambda>(str, r). (JString str, r)) (string_body cs)
          else if take 4 s = js ''true'' then Some (JBool True, drop 4 s)
          else if take 5 s = js ''false'' then Some (JBool False, drop 5 s)
          else if take 4 s = js ''null'' then Some (JNull, drop 4 s)
          else map_option (\<lambda>(lexeme, r). (JNumber lexeme, r)) (number s))"

datatype 'a parsed = OutOfFuel | Unexpected | Parsed 'a jsstring

text \<open>
  Recursive descent over the grammar, each call spending one unit of fuel.
  \<open>parse_elements\<close> reads the elements of an array after its first bracket,
  \<open>parse_members\<close> the members of an object after its first brace.
\<close>

fun parse_value :: "nat \<Rightarrow> jsstring \<Rightarrow> json parsed"
  and parse_elements :: "nat \<Rightarrow> json list \<Rightarrow> jsstring \<Rightarrow> json parsed"
  and parse_members :: "nat \<Rightarrow> (jsstring \<times> json) list \<Rightarrow> jsstring \<Rightarrow> json parsed"
where
  "parse_value 0 s = OutOfFuel"
| "parse_value (Suc n) s =
     (case skip_ws s of
        [] \<Rightarrow> Unexpected
      | c # cs \<Rightarrow>
          if c = 123 then
            (case skip_ws cs of
               [] \<Rightarrow> Unexpected
             | d # ds \<Rightarrow> if d = 125 then Parsed (JObject []) ds else parse_members n [] (d # ds))
          else if c = 91 then
            (case skip_ws cs of
               [] \<Rightarrow> Unexpected
             | d # ds \<Rightarrow> if d = 93 then Parsed (JArray []) ds else parse_elements n [] (d # ds))
          else (case scalar (c # cs) of None \<Rightarrow> Unexpected | Some (v, r) \<Rightarrow> Parsed v r))"
| "parse_elements 0 acc s = OutOfFuel"
| "parse_elements (Suc n) acc s =
     (case parse_value n s of
        OutOfFuel \<Rightarrow> OutOfFuel
      | Unexpected \<Rightarrow> Unexpected
      | Parsed v r \<Rightarrow>
          (case skip_ws r of
             [] \<Rightarrow> Unexpected
           | c # cs \<Rightarrow>
               if c = 44 then parse_elements n (acc @ [v]) cs
               else if c = 93 then Parsed (JArray (acc @ [v])) cs
               else Unexpected))"
| "parse_members 0 acc s = OutOfFuel"
| "parse_members (Suc n) acc s =
     (case skip_ws s of
        [] \<Rightarrow> Unexpected
      | q # cs \<Rightarrow>
          if q \<noteq> 34 then Unexpected
          else
            (case string_body cs of
               None \<Rightarrow> Unexpected
             | Some (key, r1) \<Rightarrow>
                 (case skip_ws r1 of
                    [] \<Rightarrow> Unexpected
                  | c # r2 \<Rightarrow>
                      if c \<noteq> 58 then Unexpected
                      else
                        (case parse_value n r2 of
                           OutOfFuel \<Rightarrow> OutOfFuel
                         | Unexpected \<Rightarrow> Unexpected
                         | Parsed v r3 \<Rightarrow>
                             (case skip_ws r3 of
                                [] \<Rightarrow> Unexpected
                              | d # r4 \<Rightarrow>
                                  if d = 44 then parse_members n (acc @ [(key, v)]) r4
                                  else if d = 125 then Parsed (JObject (acc @ [(key, v)])) r4
                                  else Unexpected)))))"

text \<open>
  \<open>JSON.parse(text)\<close>: one value, then only white space. The fuel is more than any
  descent over \<open>text\<close> spends (lemma \<open>parse_fuel\<close>).
\<close>

definition JSON_parse :: "jsstring \<Rightarrow> thrown + json" where
  "JSON_parse text =
     (case parse_value (2 * length text + 1) text of
        Parsed v r \<Rightarrow> if skip_ws r = [] then Inr v else Inl SyntaxError
      | _ \<Rightarrow> Inl SyntaxError)"

text \<open>
  Reading one of the properties \<open>files\<close>, \<open>path\<close>, \<open>content\<close>: a TypeError on
  \<open>null\<close>, the own property of an object (none of the three is inherited), and
  \<open>undefined\<close> (\<open>None\<close>) on every other value.
\<close>

definition get_property :: "json \<Rightarrow> string \<Rightarrow> thrown + json option" where
  "get_property v key =
     (case v of
        JNull \<Rightarrow> Inl (TypeError ''Cannot read properties of null'')
      | JObject members \<Rightarrow> Inr (map_of (rev members) (js key))
      | _ \<Rightarrow> Inr None)"

section \<open>Regular-expression matching for \<open>String.prototype.match\<close>\<close>

text \<open>
  The two kinds of item the pattern of the parser is made of: a literal string, and the
  greedy \<open>[\s\S]*\<close>, which matches any run of code units and gives back one at a time.
\<close>

datatype regex_item = Literal jsstring | AnyStar

fun first_some :: "'a option list \<Rightarrow> 'a option" where
  "first_some [] = None"
| "first_some (None # xs) = first_some xs"
| "first_some (Some a # xs) = Some a"

text \<open>The length of the match of the items at the start of the input, by backtracking.\<close>

fun match_here :: "regex_item list \<Rightarrow> jsstring \<Rightarrow> nat option" where
  "match_here [] s = Some 0"
| "match_here (Literal l # items) s =
     (if take (length l) s = l
      then map_option (\<lambda>m. length l + m) (match_here items (drop (length l) s))
      else None)"
| "match_here (AnyStar # items) s =
     first_some (map (\<lambda>k. map_option (\<lambda>m. k + m) (match_here items (drop k s)))
                     (rev [0..<Suc (length s)]))"

text \<open>\<open>s.match(re)\<close> for a pattern without the global flag: the leftmost match, or null.\<close>

definition str_match :: "regex_item list \<Rightarrow> jsstring \<Rightarrow> jsstring option" where
  "str_match items s =
     first_some (map (\<lambda>i. map_option (\<lambda>m. take m (drop i s)) (match_here items (drop i s)))
                     [0..<Suc (length s)])"

section \<open>Code Generation Response Parser (src/src/lib/ai/index.ts)\<close>

record generated_file =
  path :: "json option"
  content :: "json option"

text \<open>\<open>/\{[\s\S]*"files"[\s\S]*\}/\<close>\<close>

definition files_pattern :: "regex_item list" where
  "files_pattern = [Literal [123], AnyStar, Literal (34 # js ''files'' @ [34]), AnyStar, Literal [125]]"

text \<open>The callback of \<open>parsed.files.map\<close>.\<close>

definition to_file :: "json \<Rightarrow> thrown + generated_file" where
  "to_file file =
     (case get_property file ''path'' of
        Inl e \<Rightarrow> Inl e
      | Inr p \<Rightarrow>
          (case get_property file ''content'' of
             Inl e \<Rightarrow> Inl e
           | Inr c \<Rightarrow> Inr \<lparr>path = p, content = c\<rparr>))"

fun map_files :: "json list \<Rightarrow> thrown + generated_file list" where
  "map_files [] = Inr []"
| "map_files (file # rest) =
     (case to_file file of
        Inl e \<Rightarrow> Inl e
      | Inr f \<Rightarrow> (case map_files rest of Inl e \<Rightarrow> Inl e | Inr fs \<Rightarrow> Inr (f # fs)))"

text \<open>The body of the \<open>try\<close> block.\<close>

definition extract_files :: "jsstring \<Rightarrow> thrown + generated_file list" where
  "extract_files response =
     (case str_match files_pattern response of
        None \<Rightarrow> Inl (Error ''No valid JSON found in response'')
      | Some jsonMatch \<Rightarrow>
          (case JSON_parse jsonMatch of
             Inl e \<Rightarrow> Inl e
           | Inr parsed \<Rightarrow>
               (case get_property parsed ''files'' of
                  Inl e \<Rightarrow> Inl e
                | Inr (Some (JArray files)) \<Rightarrow> map_files files
                | Inr _ \<Rightarrow> Inl (Error ''Response does not contain files array''))))"

text \<open>
  \<open>parseCodeGenerationResponse\<close>: the \<open>catch\<close> logs the error and throws a new one.
\<close>

definition parseCodeGenerationResponse :: "jsstring \<Rightarrow> thrown + generated_file list" where
  "parseCodeGenerationResponse response =
     (case extract_files response of
        Inr files \<Rightarrow> Inr files
      | Inl error \<Rightarrow> Inl (Error ''Failed to parse generated code response''))"

section \<open>Deploy Target Adapter (src/src/lib/deploy/vercel.ts)\<close>

datatype deployment_state = QUEUED | BUILDING | READY | ERROR | CANCELED

fun state_text :: "deployment_state \<Rightarrow> string" where
  "state_text QUEUED = ''QUEUED''"
| "state_text BUILDING = ''BUILDING''"
| "state_text READY = ''READY''"
| "state_text ERROR = ''ERROR''"
| "state_text CANCELED = ''CANCELED''"

record VercelProject =
  vp_id :: string
  vp_name :: string

record VercelDeployment =
  vd_id :: string
  vd_url :: string
  vd_state :: deployment_state

text \<open>
  What one \<open>fetch\<close> does: a response with \<open>ok\<close> whose body has the declared type,
  a response that is not \<open>ok\<close> (its status, and the \<open>JSON.stringify\<close> of its body
  when the body parses), or a rejection (network failure, unparsable body).
\<close>

datatype 'a fetched = Responded 'a | NotOk nat "string option" | FetchThrew thrown

text \<open>The steps of \<open>GitHubService.pushFiles\<close> that touch the file system or run git.\<close>

datatype push_step =
    MkdirTemp | GitInit | GitConfigEmail | GitConfigName
  | MkdirFor nat | WriteFile nat
  | GitAdd | GitCommit | GitAddRemote | GitPush | GitForcePush | GitLog
  | RmTemp

text \<open>
  The outside world as the adapters see it: the environment variables, the answer of every
  remote call, and which local step fails. The body of the answer to \<open>getProject\<close>
  may be \<open>null\<close> (\<open>None\<close>). \<open>vercel_getDeployment n\<close> is the time the n-th
  status request takes and its answer. \<open>path_join\<close> is Node's \<open>path.join\<close>;
  \<open>arg_type_error name received\<close> is the TypeError (ERR_INVALID_ARG_TYPE) that Node
  raises when the argument \<open>name\<close> of a path or file-system function is not a string, its
  message naming the argument and the value received (\<open>None\<close> is \<open>undefined\<close>).
\<close>

record env =
  VERCEL_TOKEN :: "string option"
  NETLIFY_TOKEN :: "string option"
  GITHUB_TOKEN :: "string option"
  vercel_getProject :: "VercelProject option fetched"
  vercel_createProject :: "VercelProject fetched"
  vercel_setEnvironmentVariables :: "unit fetched"
  vercel_deploy :: "VercelDeployment fetched"
  vercel_getDeployment :: "nat \<Rightarrow> nat \<times> VercelDeployment fetched"
  users_getAuthenticated :: "thrown + string"
  repos_get :: "thrown + unit"
  repos_createForAuthenticatedUser :: "thrown + unit"
  tmpdir :: string
  path_join :: "string \<Rightarrow> jsstring \<Rightarrow> string"
  step_fails :: "push_step \<Rightarrow> thrown option"
  log_latest_hash :: "string option"
  arg_type_error :: "string \<Rightarrow> json option \<Rightarrow> thrown"

text \<open>\<open>VercelService.request\<close>, after the constructor has stored the token.\<close>

definition request :: "'a fetched \<Rightarrow> string \<Rightarrow> string \<Rightarrow> 'a io" where
  "request answer method endpoint w =
     (let w1 = emit (VercelRequest method endpoint) w in
      case answer of
        Responded a \<Rightarrow> (Inr a, w1)
      | NotOk st body \<Rightarrow>
          (Inl (Error (''Vercel API error: '' @ show_nat st @ '' - '' @
                       (case body of None \<Rightarrow> ''{}'' | Some b \<Rightarrow> b))), w1)
      | FetchThrew e \<Rightarrow> (Inl e, w1))"

text \<open>The constructor: \<open>token || process.env.VERCEL_TOKEN\<close>, called without a token.\<close>

definition new_VercelService :: "env \<Rightarrow> unit io" where
  "new_VercelService env =
     (if \<not> truthy (VERCEL_TOKEN env) then throw_io (Error ''Vercel token not configured'')
      else return_io ())"

definition getProject :: "env \<Rightarrow> string \<Rightarrow> VercelProject option io" where
  "getProject env nameOrId =
     try_catch (request (vercel_getProject env) ''GET'' (''/v9/projects/'' @ nameOrId))
       (\<lambda>error. if str_includes (message error) ''404'' then return_io None else throw_io error)"

definition createProject :: "env \<Rightarrow> string \<Rightarrow> VercelProject io" where
  "createProject env name = request (vercel_createProject env) ''POST'' ''/v10/projects''"

definition setEnvironmentVariables :: "env \<Rightarrow> string \<Rightarrow> (string \<times> string) list \<Rightarrow> unit io" where
  "setEnvironmentVariables env projectId envVars =
     request (vercel_setEnvironmentVariables env) ''POST'' (''/v10/projects/'' @ projectId @ ''/env'')"

definition vercel_deploy_call :: "env \<Rightarrow> string \<Rightarrow> VercelDeployment io" where
  "vercel_deploy_call env projectId = request (vercel_deploy env) ''POST'' ''/v13/deployments''"

text \<open>
  \<open>getDeployment\<close>: the n-th status request of the run takes its time on the clock and
  gives its answer.
\<close>

definition getDeployment :: "env \<Rightarrow> string \<Rightarrow> VercelDeployment io" where
  "getDeployment env deploymentId w =
     (case vercel_getDeployment env (polls w) of
        (latency, answer) \<Rightarrow>
          request answer ''GET'' (''/v13/deployments/'' @ deploymentId)
            (w\<lparr>clock := clock w + latency, polls := Suc (polls w)\<rparr>))"

text \<open>\<open>await new Promise((resolve) => setTimeout(resolve, ms))\<close>\<close>

definition sleep :: "nat \<Rightarrow> world \<Rightarrow> world" where
  "sleep ms w = emit (Slept ms) (w\<lparr>clock := clock w + ms\<rparr>)"

definition state_failure :: "deployment_state \<Rightarrow> thrown" where
  "state_failure s = Error (''Deployment failed with state: '' @ state_text s)"

definition timed_out :: thrown where
  "timed_out = Error ''Deployment timed out''"

text \<open>
  The loop of \<open>waitForDeployment\<close>: \<open>while (Date.now() - startTime < timeout)\<close>, one
  status request per round, five seconds of sleep between rounds.
\<close>

function wait_loop :: "env \<Rightarrow> string \<Rightarrow> nat \<Rightarrow> nat \<Rightarrow> VercelDeployment io" where
  "wait_loop env deploymentId timeout startTime w =
     (if int (clock w) - int startTime < int timeout then
        (case getDeployment env deploymentId w of
           (Inl e, w1) \<Rightarrow> (Inl e, w1)
         | (Inr deployment, w1) \<Rightarrow>
             if vd_state deployment = READY then (Inr deployment, w1)
             else if vd_state deployment = ERROR \<or> vd_state deployment = CANCELED
             then (Inl (state_failure (vd_state deployment)), w1)
             else wait_loop env deploymentId timeout startTime (sleep 5000 w1))
      else (Inl timed_out, w))"
  by pat_completeness auto
termination
proof (relation "measure (\<lambda>(env, deploymentId, timeout, startTime, w). startTime + timeout - clock w)")
  show "wf (measure (\<lambda>(env, deploymentId, timeout, startTime, w). startTime + timeout - clock w))"
    by simp
next
  fix env :: env and deploymentId timeout startTime w x1 w1 and deployment :: VercelDeployment
  assume live: "int (clock w) - int startTime < int timeout"
    and got: "(x1, w1) = getDeployment env deploymentId w"
  from got have "clock w \<le> clock w1"
    by (auto simp: getDeployment_def request_def emit_def Let_def
             split: prod.splits fetched.splits)
  with live show "((env, deploymentId, timeout, startTime, sleep 5000 w1),
                   (env, deploymentId, timeout, startTime, w))
      \<in> measure (\<lambda>(env, deploymentId, timeout, startTime, w). startTime + timeout - clock w)"
    by (simp add: sleep_def emit_def)
qed

declare wait_loop.simps [simp del]


text \<open>\<open>waitForDeployment(deploymentId, timeout = 300000)\<close>\<close>

definition timeout_or_default :: "nat option \<Rightarrow> nat" where
  "timeout_or_default timeout = (case timeout of None \<Rightarrow> 300000 | Some t \<Rightarrow> t)"

definition waitForDeployment :: "env \<Rightarrow> string \<Rightarrow> nat option \<Rightarrow> VercelDeployment io" where
  "waitForDeployment env deploymentId timeout w =
     wait_loop env deploymentId (timeout_or_default timeout) (clock w) w"

record DeploymentConfig =
  dc_provider :: string
  dc_projectName :: string
  dc_envVariables :: "(string \<times> string) list option"
  dc_buildCommand :: "string option"
  dc_outputDirectory :: "string option"

record DeploymentResult =
  dr_success :: bool
  dr_url :: "string option"
  dr_deploymentId :: "string option"
  dr_logs :: "string list option"
  dr_error :: "string option"

text \<open>The body of the \<open>try\<close> block of \<open>deployToVercel\<close>.\<close>

definition deployToVercel_body :: "env \<Rightarrow> DeploymentConfig \<Rightarrow> DeploymentResult io" where
  "deployToVercel_body env config =
     then_io (new_VercelService env) (\<lambda>_.
     then_io (getProject env (dc_projectName config)) (\<lambda>found.
     then_io (case found of
                None \<Rightarrow> createProject env (dc_projectName config)
              | Some p \<Rightarrow> return_io p) (\<lambda>project.
     then_io (case dc_envVariables config of
                None \<Rightarrow> return_io ()
              | Some vars \<Rightarrow> setEnvironmentVariables env (vp_id project) vars) (\<lambda>_.
     then_io (vercel_deploy_call env (vp_id project)) (\<lambda>deployment.
     then_io (waitForDeployment env (vd_id deployment) None) (\<lambda>finalDeployment.
     return_io \<lparr>dr_success = True,
                dr_url = Some (''https://'' @ vd_url finalDeployment),
                dr_deploymentId = Some (vd_id finalDeployment),
                dr_logs = Some [],
                dr_error = None\<rparr>))))))"

definition failure_result :: "string \<Rightarrow> DeploymentResult" where
  "failure_result msg =
     \<lparr>dr_success = False, dr_url = None, dr_deploymentId = None, dr_logs = None,
      dr_error = Some msg\<rparr>"

definition deployToVercel :: "env \<Rightarrow> DeploymentConfig \<Rightarrow> DeploymentResult io" where
  "deployToVercel env config w =
     try_catch (deployToVercel_body env config)
       (\<lambda>error. return_io (failure_result (message_or error ''Unknown error occurred'')))
       (enter ''deployToVercel'' w)"

section \<open>Source Host Adapter (class GitHubService, in src/src/lib/deploy/index.ts)\<close>

record GitHubConfig =
  owner :: string
  repo :: string
  branch :: "string option"

record PushFilesOptions =
  pf_files :: "generated_file list"
  pf_commitMessage :: string

record PushResult =
  commitSha :: string
  pr_url :: string

text \<open>The constructor: \<open>token || process.env.GITHUB_TOKEN\<close>, called without a token.\<close>

definition new_GitHubService :: "env \<Rightarrow> unit io" where
  "new_GitHubService env =
     (if \<not> truthy (GITHUB_TOKEN env) then throw_io (Error ''GitHub token not configured'')
      else return_io ())"

text \<open>One Octokit call: recorded, then answered by the outside world.\<close>

definition octokit :: "string \<Rightarrow> thrown + 'a \<Rightarrow> 'a io" where
  "octokit endpoint answer w = (answer, emit (GitHubRequest endpoint) w)"

definition getAuthenticatedUser :: "env \<Rightarrow> string io" where
  "getAuthenticatedUser env = octokit ''users.getAuthenticated'' (users_getAuthenticated env)"

definition createRepository :: "env \<Rightarrow> string \<Rightarrow> unit io" where
  "createRepository env name =
     octokit ''repos.createForAuthenticatedUser'' (repos_createForAuthenticatedUser env)"

definition repoExists :: "env \<Rightarrow> string \<Rightarrow> string \<Rightarrow> bool io" where
  "repoExists env own rep =
     try_catch (then_io (octokit ''repos.get'' (repos_get env)) (\<lambda>_. return_io True))
       (\<lambda>error. if status error = Some 404 then return_io False else throw_io error)"

text \<open>One local step: recorded, then it fails or not as the outside world says.\<close>

definition step :: "env \<Rightarrow> push_step \<Rightarrow> event \<Rightarrow> unit io" where
  "step env st ev w =
     (case step_fails env st of
        Some e \<Rightarrow> (Inl e, emit ev w)
      | None \<Rightarrow> (Inr (), emit ev w))"

text \<open>\<open>mkdir(p, { recursive: true })\<close> and \<open>writeFile(p, data)\<close>: the path exists afterwards.\<close>

definition mkdir :: "env \<Rightarrow> push_step \<Rightarrow> string \<Rightarrow> unit io" where
  "mkdir env st p =
     then_io (step env st (FsCall ''mkdir'' p)) (\<lambda>_ w. (Inr (), w\<lparr>paths := insert p (paths w)\<rparr>))"

definition writeFile :: "env \<Rightarrow> push_step \<Rightarrow> string \<Rightarrow> unit io" where
  "writeFile env st p =
     then_io (step env st (FsCall ''writeFile'' p)) (\<lambda>_ w. (Inr (), w\<lparr>paths := insert p (paths w)\<rparr>))"

text \<open>
  \<open>rm(p, { recursive: true, force: true })\<close>: the path and everything below it is gone
  afterwards; a path that does not exist is no error.
\<close>

definition below :: "string \<Rightarrow> string \<Rightarrow> bool" where
  "below p q = (take (length p + 1) q = p @ ''/'')"

definition rm :: "env \<Rightarrow> push_step \<Rightarrow> string \<Rightarrow> unit io" where
  "rm env st p =
     then_io (step env st (FsCall ''rm'' p))
       (\<lambda>_ w. (Inr (), w\<lparr>paths := {q \<in> paths w. q \<noteq> p \<and> \<not> below p q}\<rparr>))"

text \<open>\<open>s.split("/")\<close> and \<open>parts.join("/")\<close> on code units (47 is the slash).\<close>

fun split_slash :: "jsstring \<Rightarrow> jsstring list" where
  "split_slash [] = [[]]"
| "split_slash (c # cs) =
     (if c = 47 then [] # split_slash cs
      else (case split_slash cs of [] \<Rightarrow> [[c]] | part # parts \<Rightarrow> (c # part) # parts))"

fun join_slash :: "jsstring list \<Rightarrow> jsstring" where
  "join_slash [] = []"
| "join_slash [part] = part"
| "join_slash (part # parts) = part @ [47] @ join_slash parts"

text \<open>
  One round of the loop over the files. \<open>path.join\<close> and \<open>writeFile\<close> raise a TypeError
  for an argument that is not a string.
\<close>

definition write_file :: "env \<Rightarrow> string \<Rightarrow> nat \<Rightarrow> generated_file \<Rightarrow> unit io" where
  "write_file env tempDir i file =
     (case path file of
        Some (JString p) \<Rightarrow>
          (let filePath = path_join env tempDir p;
               dirPath = path_join env tempDir (join_slash (butlast (split_slash p)))
           in then_io (if dirPath \<noteq> tempDir then mkdir env (MkdirFor i) dirPath else return_io ())
                (\<lambda>_. case content file of
                        Some (JString c) \<Rightarrow> writeFile env (WriteFile i) filePath
                      | _ \<Rightarrow> throw_io (arg_type_error env ''data'' (content file))))
      | _ \<Rightarrow> throw_io (arg_type_error env ''path'' (path file)))"

fun write_files :: "env \<Rightarrow> string \<Rightarrow> nat \<Rightarrow> generated_file list \<Rightarrow> unit io" where
  "write_files env tempDir i [] = return_io ()"
| "write_files env tempDir i (file # files) =
     then_io (write_file env tempDir i file) (\<lambda>_. write_files env tempDir (Suc i) files)"

text \<open>\<open>join(tmpdir(), `project-scaffolder-${Date.now()}`)\<close>\<close>

definition temp_dir :: "env \<Rightarrow> world \<Rightarrow> string" where
  "temp_dir env w = path_join env (tmpdir env) (js (''project-scaffolder-'' @ show_nat (clock w)))"

text \<open>The body of the \<open>try\<close> block of \<open>pushFiles\<close>.\<close>

definition pushFiles_body ::
  "env \<Rightarrow> string \<Rightarrow> GitHubConfig \<Rightarrow> PushFilesOptions \<Rightarrow> PushResult io" where
  "pushFiles_body env tempDir config options =
     then_io (mkdir env MkdirTemp tempDir) (\<lambda>_.
     then_io (step env GitInit (GitCommand ''init'')) (\<lambda>_.
     then_io (step env GitConfigEmail (GitCommand ''config user.email'')) (\<lambda>_.
     then_io (step env GitConfigName (GitCommand ''config user.name'')) (\<lambda>_.
     then_io (write_files env tempDir 0 (pf_files options)) (\<lambda>_.
     then_io (step env GitAdd (GitCommand ''add'')) (\<lambda>_.
     then_io (step env GitCommit (GitCommand ''commit'')) (\<lambda>_.
     then_io (step env GitAddRemote (GitCommand ''remote add origin'')) (\<lambda>_.
     then_io (try_catch (step env GitPush (GitCommand ''push --set-upstream''))
                (\<lambda>_. step env GitForcePush (GitCommand ''push --set-upstream --force''))) (\<lambda>_.
     then_io (step env GitLog (GitCommand ''log'')) (\<lambda>_.
     return_io \<lparr>commitSha = (case log_latest_hash env of None \<Rightarrow> [] | Some h \<Rightarrow> h),
                pr_url = ''https://github.com/'' @ owner config @ ''/'' @ repo config\<rparr>))))))))))"

definition pushFiles :: "env \<Rightarrow> GitHubConfig \<Rightarrow> PushFilesOptions \<Rightarrow> PushResult io" where
  "pushFiles env config options w =
     (let tempDir = temp_dir env w
      in try_finally (pushFiles_body env tempDir config options) (rm env RmTemp tempDir) w)"

section \<open>Deployment Pipeline Orchestrator (src/src/lib/deploy/index.ts)\<close>

definition getConfiguredProviders :: "env \<Rightarrow> string list" where
  "getConfiguredProviders env =
     (if truthy (VERCEL_TOKEN env) then [''vercel''] else []) @
     (if truthy (NETLIFY_TOKEN env) then [''netlify''] else []) @
     (if truthy (GITHUB_TOKEN env) then [''github-pages''] else [])"

record DeployOptions =
  do_provider :: string
  do_projectName :: string
  do_files :: "generated_file list"
  do_envVariables :: "(string \<times> string) list option"
  do_buildCommand :: "string option"
  do_outputDirectory :: "string option"

definition deploy :: "env \<Rightarrow> DeployOptions \<Rightarrow> DeploymentResult io" where
  "deploy env options w =
     (let w1 = enter ''deploy'' w in
      if do_provider options = ''vercel'' then
        deployToVercel env
          \<lparr>dc_provider = ''vercel'', dc_projectName = do_projectName options,
           dc_envVariables = do_envVariables options,
           dc_buildCommand = do_buildCommand options,
           dc_outputDirectory = do_outputDirectory options\<rparr> w1
      else if do_provider options = ''netlify'' then
        (Inr (failure_result ''Netlify deployment not yet implemented''), w1)
      else if do_provider options = ''github-pages'' then
        (Inr (failure_result ''GitHub Pages deployment not yet implemented''), w1)
      else
        (Inr (failure_result (''Unknown deployment provider: '' @ do_provider options)), w1))"

record GitHubOptions =
  repoName :: string
  gh_description :: "string option"
  gh_files :: "generated_file list"
  gh_isPrivate :: "bool option"

record GitHubResult =
  gr_success :: bool
  repoUrl :: "string option"
  gr_error :: "string option"

definition createAndPushToGitHub_body :: "env \<Rightarrow> GitHubOptions \<Rightarrow> GitHubResult io" where
  "createAndPushToGitHub_body env options =
     then_io (new_GitHubService env) (\<lambda>_.
     then_io (getAuthenticatedUser env) (\<lambda>login.
     then_io (repoExists env login (repoName options)) (\<lambda>exists.
     then_io (if \<not> exists then createRepository env (repoName options) else return_io ()) (\<lambda>_.
     then_io (pushFiles env \<lparr>owner = login, repo = repoName options, branch = None\<rparr>
                \<lparr>pf_files = gh_files options,
                 pf_commitMessage = ''Initial commit from Project Scaffolder''\<rparr>) (\<lambda>result.
     return_io \<lparr>gr_success = True, repoUrl = Some (pr_url result), gr_error = None\<rparr>)))))"

definition createAndPushToGitHub :: "env \<Rightarrow> GitHubOptions \<Rightarrow> GitHubResult io" where
  "createAndPushToGitHub env options w =
     try_catch (createAndPushToGitHub_body env options)
       (\<lambda>error. return_io \<lparr>gr_success = False, repoUrl = None,
                           gr_error = Some (message_or error ''Unknown error occurred'')\<rparr>)
       (enter ''createAndPushToGitHub'' w)"

record PipelineOptions =
  po_projectName :: string
  po_description :: "string option"
  po_files :: "generated_file list"
  po_deployProvider :: string
  po_envVariables :: "(string \<times> string) list option"
  po_isPrivate :: "bool option"

record PipelineResult =
  success :: bool
  githubUrl :: "string option"
  deploymentUrl :: "string option"
  error :: "string option"

text \<open>An optional string inside a template string: \<open>undefined\<close> prints as its name.\<close>

definition template_opt :: "string option \<Rightarrow> string" where
  "template_opt v = (case v of None \<Rightarrow> ''undefined'' | Some s \<Rightarrow> s)"

definition fullDeploymentPipeline :: "env \<Rightarrow> PipelineOptions \<Rightarrow> PipelineResult io" where
  "fullDeploymentPipeline env options =
     then_io (createAndPushToGitHub env
                \<lparr>repoName = po_projectName options, gh_description = po_description options,
                 gh_files = po_files options, gh_isPrivate = po_isPrivate options\<rparr>)
       (\<lambda>githubResult.
          if \<not> gr_success githubResult then
            return_io \<lparr>success = False, githubUrl = None, deploymentUrl = None,
                       error = Some (''GitHub setup failed: '' @ template_opt (gr_error githubResult))\<rparr>
          else
            then_io (deploy env
                       \<lparr>do_provider = po_deployProvider options,
                        do_projectName = po_projectName options,
                        do_files = po_files options,
                        do_envVariables = po_envVariables options,
                        do_buildCommand = None, do_outputDirectory = None\<rparr>)
              (\<lambda>deployResult.
                 return_io \<lparr>success = dr_success deployResult,
                            githubUrl = repoUrl githubResult,
                            deploymentUrl = dr_url deployResult,
                            error = dr_error deployResult\<rparr>))"

section \<open>Datastore (the tables and triggers of src/supabase)\<close>

datatype generation_status = GEN_PENDING | GEN_PROCESSING | GEN_COMPLETED | GEN_FAILED

datatype deployment_status = DEP_PENDING | DEP_BUILDING | DEP_SUCCESS | DEP_FAILED | DEP_CANCELLED

datatype role = USER | ADMIN | ENTERPRISE_ADMIN

record Project =
  p_name :: string
  p_description :: "string option"
  p_status :: project_status
  p_techStack :: "string list"
  p_prompt :: "string option"
  p_generatedFiles :: "generated_file list option"
  p_githubRepo :: "string option"
  p_deploymentUrl :: "string option"
  p_version :: int
  p_ownerId :: string
  p_lastDeployedAt :: "nat option"

record CodeGeneration =
  cg_projectId :: string
  cg_prompt :: string
  cg_model :: string
  cg_output :: "generated_file list option"
  cg_tokenUsage :: "(nat \<times> nat) option"
  cg_durationMs :: "nat option"
  cg_status :: generation_status
  cg_errorMessage :: "string option"
  cg_completedAt :: "nat option"

record Deployment =
  d_projectId :: string
  d_provider :: string
  d_status :: deployment_status
  d_url :: "string option"
  d_errorMessage :: "string option"
  d_completedAt :: "nat option"

record AuditLog =
  a_userId :: "string option"
  a_action :: string
  a_resource :: string
  a_resourceId :: "string option"
  a_severity :: string
  a_category :: string

text \<open>
  The tables the two flows touch, as the migrations create them. A project is found by
  its id; a CodeGeneration or a Deployment has its position in the table as id.
\<close>

record datastore =
  projects :: "string \<Rightarrow> Project option"
  codeGenerations :: "CodeGeneration list"
  deployments :: "Deployment list"
  auditLogs :: "AuditLog list"

record system =
  db :: datastore
  ext :: world

text \<open>
  What the triggers read from the connection: \<open>get_current_user_id()\<close>, whether
  \<open>request.jwt.claims\<close> is set, and whether the role is \<open>service_role\<close>.
\<close>

record sql_context =
  current_user_id :: "string option"
  jwt_claims :: bool
  service_role :: bool

text \<open>
  \<open>trigger_audit_log\<close>, the AFTER INSERT OR UPDATE trigger of projects, deployments and
  code_generations: one row in audit_logs, unless the connection has neither a user nor
  claims nor the service role.
\<close>

definition trigger_audit_log ::
  "sql_context \<Rightarrow> string \<Rightarrow> string \<Rightarrow> string \<Rightarrow> datastore \<Rightarrow> datastore" where
  "trigger_audit_log ctx action table_name row_id d =
     (if current_user_id ctx = None \<and> \<not> jwt_claims ctx \<and> \<not> service_role ctx then d
      else d\<lparr>auditLogs := auditLogs d @
                 [\<lparr>a_userId = current_user_id ctx, a_action = action, a_resource = table_name,
                   a_resourceId = Some row_id, a_severity = ''INFO'',
                   a_category = ''data_access''\<rparr>]\<rparr>)"

text \<open>
  One UPDATE of a row of projects that sets \<open>status\<close>: the BEFORE trigger
  \<open>validate_project_status\<close> may raise, then the row is written and the AFTER trigger
  \<open>audit_projects\<close> runs. (\<open>set_projects_updated_at\<close> writes \<open>updated_at\<close>, a column
  the model does not carry.) \<open>Inl\<close> is the raised exception; nothing is written then.
\<close>

definition update_project_row ::
  "sql_context \<Rightarrow> string \<Rightarrow> Project \<Rightarrow> Project \<Rightarrow> datastore \<Rightarrow> string + datastore" where
  "update_project_row ctx pid old new d =
     (case trigger_validate_project_status (p_status old) (p_status new) of
        Inl exception \<Rightarrow> Inl exception
      | Inr _ \<Rightarrow>
          Inr (trigger_audit_log ctx ''UPDATE'' ''projects'' pid
                 (d\<lparr>projects := (projects d)(pid \<mapsto> new)\<rparr>)))"


text \<open>
  \<open>trigger_deployment_completed\<close>, AFTER UPDATE OF status ON deployments. On SUCCESS
  the project becomes DEPLOYED with the URL and \<open>last_deployed_at = NOW()\<close>; on FAILED
  the project becomes FAILED if it is DEPLOYING.
\<close>

definition trigger_deployment_completed ::
  "sql_context \<Rightarrow> nat \<Rightarrow> Deployment \<Rightarrow> Deployment \<Rightarrow> datastore \<Rightarrow> string + datastore" where
  "trigger_deployment_completed ctx now old new d =
     (if d_status old = d_status new then Inr d
      else
        (case (if d_status new = DEP_SUCCESS then
                 (case projects d (d_projectId new) of
                    None \<Rightarrow> Inr d
                  | Some p \<Rightarrow>
                      update_project_row ctx (d_projectId new) p
                        (p\<lparr>p_status := DEPLOYED,
                           p_deploymentUrl :=
                             (case d_url new of
                                None \<Rightarrow> p_deploymentUrl p
                              | Some u \<Rightarrow> Some u),
                           p_lastDeployedAt := Some now\<rparr>) d)
               else Inr d) of
           Inl exception \<Rightarrow> Inl exception
         | Inr d1 \<Rightarrow>
             if d_status new = DEP_FAILED then
               (case projects d1 (d_projectId new) of
                  None \<Rightarrow> Inr d1
                | Some p \<Rightarrow>
                    if p_status p = DEPLOYING
                    then update_project_row ctx (d_projectId new) p (p\<lparr>p_status := FAILED\<rparr>) d1
                    else Inr d1)
             else Inr d1))"

text \<open>The places where a route calls the datastore.\<close>

datatype db_call =
    FindProject
  | UpdateProjectGenerating | CreateCodeGeneration
  | UpdateCodeGenerationCompleted | UpdateProjectGenerated | AuditCreate
  | UpdateCodeGenerationFailed | UpdateProjectFailed | AuditError
  | UpdateProjectDeploying | CreateDeployment | UpdateDeploymentBuilding
  | UpdateDeploymentSuccess | UpdateProjectDeployed | UpdateDeploymentFailed

record SessionUser =
  su_id :: string
  su_role :: role

record GenerateRequest =
  g_projectId :: string
  g_prompt :: "string option"
  g_provider :: "string option"
  g_model :: "string option"

record DeployRequest =
  dq_projectId :: string
  dq_provider :: string
  dq_envVariables :: "(string \<times> string) list option"
  dq_createGitHubRepo :: bool
  dq_isPrivate :: bool

record GenerateResult =
  gen_content :: jsstring
  gen_model :: string
  gen_usage :: "nat \<times> nat"
  gen_durationMs :: nat

text \<open>What the ORM reports: no row for the \<open>where\<close>, or an exception of the database.\<close>

datatype db_error = RecordNotFound | DbException string

text \<open>
  What a request meets: the session (\<open>getServerSession\<close>), the body after
  \<open>request.json()\<close> and the schema's \<open>parse\<close> (a rejected body is a thrown ZodError),
  the datastore calls that fail for a reason outside the tables (\<open>db_fails\<close>: a lost
  connection, a value the database refuses), the context of the connection, the error the
  ORM throws for a \<open>db_error\<close>, the answer of the LLM provider to \<open>generate\<close>, and the
  outside world of the deploy adapters.
\<close>

record route_env =
  session :: "thrown + SessionUser option"
  generate_request :: "thrown + GenerateRequest"
  deploy_request :: "thrown + DeployRequest"
  db_fails :: "db_call \<Rightarrow> thrown option"
  connection :: sql_context
  prisma_error :: "db_error \<Rightarrow> thrown"
  llm_generate :: "thrown + GenerateResult"
  adapters :: env

text \<open>One awaited datastore call: it rejects and changes nothing, or it runs.\<close>

definition db_do ::
  "route_env \<Rightarrow> db_call \<Rightarrow> (datastore \<Rightarrow> (thrown + 'a) \<times> datastore) \<Rightarrow> ('a, system) eff" where
  "db_do renv c f s =
     (case db_fails renv c of
        Some e \<Rightarrow> (Inl e, s)
      | None \<Rightarrow> (case f (db s) of (r, d) \<Rightarrow> (r, s\<lparr>db := d\<rparr>)))"

text \<open>\<open>db.project.findUnique({ where: { id } })\<close>\<close>

definition project_findUnique :: "string \<Rightarrow> datastore \<Rightarrow> (thrown + Project option) \<times> datastore" where
  "project_findUnique pid d = (Inr (projects d pid), d)"

text \<open>
  \<open>db.project.update({ where: { id }, data })\<close>, for a \<open>data\<close> that sets \<open>status\<close>
  (every project update of the two routes does): only the fields of \<open>data\<close> change, and
  the triggers of the row run.
\<close>

definition project_update ::
  "route_env \<Rightarrow> string \<Rightarrow> (Project \<Rightarrow> Project) \<Rightarrow> datastore \<Rightarrow> (thrown + unit) \<times> datastore" where
  "project_update renv pid data d =
     (case projects d pid of
        None \<Rightarrow> (Inl (prisma_error renv RecordNotFound), d)
      | Some old \<Rightarrow>
          (case update_project_row (connection renv) pid old (data old) d of
             Inl exception \<Rightarrow> (Inl (prisma_error renv (DbException exception)), d)
           | Inr d1 \<Rightarrow> (Inr (), d1)))"



text \<open>\<open>db.deployment.create({ data })\<close>: the insert and its audit trigger.\<close>

definition deployment_create ::
  "route_env \<Rightarrow> Deployment \<Rightarrow> datastore \<Rightarrow> (thrown + nat) \<times> datastore" where
  "deployment_create renv row d =
     (Inr (length (deployments d)),
      trigger_audit_log (connection renv) ''CREATE'' ''deployments''
        (show_nat (length (deployments d)))
        (d\<lparr>deployments := deployments d @ [row]\<rparr>))"

text \<open>
  \<open>db.deployment.update({ where: { id }, data })\<close>, for a \<open>data\<close> that sets \<open>status\<close>:
  the row is written, then the AFTER triggers \<open>audit_deployments\<close> and
  \<open>deployment_completed\<close> run in this order, at the time \<open>now\<close>.
\<close>

definition deployment_update ::
  "route_env \<Rightarrow> nat \<Rightarrow> nat \<Rightarrow> (Deployment \<Rightarrow> Deployment) \<Rightarrow> datastore \<Rightarrow>
   (thrown + unit) \<times> datastore" where
  "deployment_update renv now i data d =
     (if i < length (deployments d) then
        (let old = deployments d ! i;
             new = data old;
             d1 = trigger_audit_log (connection renv) ''UPDATE'' ''deployments'' (show_nat i)
                    (d\<lparr>deployments := (deployments d)[i := new]\<rparr>)
         in case trigger_deployment_completed (connection renv) now old new d1 of
              Inl exception \<Rightarrow> (Inl (prisma_error renv (DbException exception)), d)
            | Inr d2 \<Rightarrow> (Inr (), d2))
      else (Inl (prisma_error renv RecordNotFound), d))"

text \<open>\<open>createAuditLog\<close>: one row more in the audit table.\<close>

definition createAuditLog :: "AuditLog \<Rightarrow> datastore \<Rightarrow> (thrown + unit) \<times> datastore" where
  "createAuditLog row d = (Inr (), d\<lparr>auditLogs := auditLogs d @ [row]\<rparr>)"

text \<open>\<open>audit.create(userId, resource, resourceId, newValue)\<close>\<close>

definition audit_create :: "string \<Rightarrow> string \<Rightarrow> nat \<Rightarrow> datastore \<Rightarrow> (thrown + unit) \<times> datastore" where
  "audit_create userId resource resourceId =
     createAuditLog \<lparr>a_userId = Some userId, a_action = ''CREATE'', a_resource = resource,
                     a_resourceId = Some (show_nat resourceId), a_severity = ''INFO'',
                     a_category = ''data_access''\<rparr>"

text \<open>\<open>audit.error(userId, resource, action, error, details)\<close>\<close>

definition audit_error :: "string \<Rightarrow> string \<Rightarrow> string \<Rightarrow> datastore \<Rightarrow> (thrown + unit) \<times> datastore" where
  "audit_error userId resource action =
     createAuditLog \<lparr>a_userId = Some userId, a_action = action, a_resource = resource,
                     a_resourceId = None, a_severity = ''ERROR'', a_category = ''system''\<rparr>"


definition or_default :: "string option \<Rightarrow> string \<Rightarrow> string" where
  "or_default a b = (case a of None \<Rightarrow> b | Some v \<Rightarrow> if v = [] then b else v)"

text \<open>An effect of the deploy library, run inside a request.\<close>

definition in_world :: "'a io \<Rightarrow> ('a, system) eff" where
  "in_world m s = (case m (ext s) of (r, w) \<Rightarrow> (r, s\<lparr>ext := w\<rparr>))"

text \<open>The oracle of a call that touches no state.\<close>

definition answer :: "thrown + 'a \<Rightarrow> ('a, 's) eff" where
  "answer r s = (r, s)"

section \<open>Responses\<close>

datatype response_body =
    ErrorBody string "string option"
  | InvalidBody
  | GenerateOk nat "generated_file list" "nat \<times> nat" nat
  | DeployOk nat "string option" "string option"

record http_response =
  code :: nat
  body :: response_body

definition json_response :: "nat \<Rightarrow> response_body \<Rightarrow> (http_response, 's) eff" where
  "json_response c b = return_io \<lparr>code = c, body = b\<rparr>"

section \<open>Generation flow (POST /api/generate, src/src/app/api/generate/route.ts)\<close>




text \<open>The outer \<open>catch\<close>: a ZodError is a 400, everything else a 500.\<close>

definition error_response :: "string \<Rightarrow> thrown \<Rightarrow> http_response" where
  "error_response what e =
     (if isZodError e then \<lparr>code = 400, body = InvalidBody\<rparr>
      else \<lparr>code = 500, body = ErrorBody what (Some (message_or e ''Unknown error''))\<rparr>)"


section \<open>Deployment flow (POST /api/deploy, in src/src/app/api/generate/route.ts)\<close>

text \<open>\<open>project.name.toLowerCase().replace(/[^a-z0-9-]/g, "-")\<close> on ASCII names.\<close>

definition lower_char :: "char \<Rightarrow> char" where
  "lower_char c =
     (let n = (of_char c :: nat) in if 65 \<le> n \<and> n \<le> 90 then char_of (n + 32) else c)"

definition slug_char :: "char \<Rightarrow> char" where
  "slug_char c =
     (let n = (of_char c :: nat)
      in if (97 \<le> n \<and> n \<le> 122) \<or> (48 \<le> n \<and> n \<le> 57) \<or> n = 45 then c else CHR ''-'')"

definition slug :: "string \<Rightarrow> string" where
  "slug name = map (slug_char \<circ> lower_char) name"

text \<open>The inner \<open>try\<close> block: the pipeline, then the writes of the success path.\<close>

definition deploy_try ::
  "route_env \<Rightarrow> SessionUser \<Rightarrow> DeployRequest \<Rightarrow> Project \<Rightarrow> generated_file list \<Rightarrow> nat \<Rightarrow>
   (http_response, system) eff" where
  "deploy_try renv user data project files deployment =
     then_io (\<lambda>s. db_do renv UpdateDeploymentBuilding
                (deployment_update renv (clock (ext s)) deployment
                   (\<lambda>row. row\<lparr>d_status := DEP_BUILDING\<rparr>)) s) (\<lambda>_.
     then_io (in_world (fullDeploymentPipeline (adapters renv)
                \<lparr>po_projectName = slug (p_name project),
                 po_description = (if truthy (p_description project) then p_description project else None),
                 po_files = files,
                 po_deployProvider = dq_provider data,
                 po_envVariables = dq_envVariables data,
                 po_isPrivate = Some (dq_isPrivate data)\<rparr>)) (\<lambda>result.
       if success result then
     then_io (\<lambda>s. db_do renv UpdateDeploymentSuccess
                (deployment_update renv (clock (ext s)) deployment
                   (\<lambda>row. row\<lparr>d_status := DEP_SUCCESS, d_url := deploymentUrl result,
                                d_completedAt := Some (clock (ext s))\<rparr>)) s) (\<lambda>_.
     then_io (\<lambda>s. db_do renv UpdateProjectDeployed
                (project_update renv (dq_projectId data)
                   (\<lambda>p. p\<lparr>p_status := DEPLOYED, p_deploymentUrl := deploymentUrl result,
                            p_githubRepo := githubUrl result,
                            p_lastDeployedAt := Some (clock (ext s))\<rparr>)) s) (\<lambda>_.
     then_io (db_do renv AuditCreate (audit_create (su_id user) ''Deployment'' deployment)) (\<lambda>_.
     json_response 200 (DeployOk deployment (deploymentUrl result) (githubUrl result)))))
       else throw_io (Error (or_default (error result) ''Deployment failed''))))"

text \<open>The inner \<open>catch\<close>: both records are marked failed, then the error is thrown again.\<close>

definition deploy_catch ::
  "route_env \<Rightarrow> SessionUser \<Rightarrow> string \<Rightarrow> nat \<Rightarrow> thrown \<Rightarrow> (http_response, system) eff" where
  "deploy_catch renv user pid deployment deployError =
     then_io (\<lambda>s. db_do renv UpdateDeploymentFailed
                (deployment_update renv (clock (ext s)) deployment
                   (\<lambda>row. row\<lparr>d_status := DEP_FAILED,
                                d_errorMessage := Some (message_or deployError ''Unknown error''),
                                d_completedAt := Some (clock (ext s))\<rparr>)) s) (\<lambda>_.
     then_io (db_do renv UpdateProjectFailed
                (project_update renv pid (\<lambda>p. p\<lparr>p_status := FAILED\<rparr>))) (\<lambda>_.
     then_io (db_do renv AuditError (audit_error (su_id user) ''Deployment'' ''DEPLOY'')) (\<lambda>_.
     throw_io deployError)))"

text \<open>The outer \<open>try\<close> block of \<open>POST /api/deploy\<close>.\<close>

definition deploy_handler :: "route_env \<Rightarrow> (http_response, system) eff" where
  "deploy_handler renv =
     then_io (answer (session renv)) (\<lambda>sess.
       case sess of
         None \<Rightarrow> json_response 401 (ErrorBody ''Unauthorized'' None)
       | Some user \<Rightarrow>
     then_io (answer (deploy_request renv)) (\<lambda>data.
       if dq_provider data \<notin> set (getConfiguredProviders (adapters renv))
       then json_response 400
              (ErrorBody (''Provider '' @ dq_provider data @ '' is not configured'') None)
       else
     then_io (db_do renv FindProject (project_findUnique (dq_projectId data))) (\<lambda>found.
       case found of
         None \<Rightarrow> json_response 404 (ErrorBody ''Project not found'' None)
       | Some project \<Rightarrow>
           if p_ownerId project \<noteq> su_id user \<and> su_role user = USER
           then json_response 403 (ErrorBody ''Forbidden'' None)
           else
           if p_generatedFiles project = None \<or> p_status project \<noteq> GENERATED
           then json_response 400
                  (ErrorBody ''Project must have generated code before deployment'' None)
           else
     then_io (db_do renv UpdateProjectDeploying
                (project_update renv (dq_projectId data) (\<lambda>p. p\<lparr>p_status := DEPLOYING\<rparr>))) (\<lambda>_.
     then_io (db_do renv CreateDeployment
                (deployment_create renv
                   \<lparr>d_projectId = dq_projectId data, d_provider = dq_provider data,
                    d_status = DEP_PENDING, d_url = None, d_errorMessage = None,
                    d_completedAt = None\<rparr>)) (\<lambda>deployment.
     try_catch (deploy_try renv user data project (the (p_generatedFiles project)) deployment)
       (deploy_catch renv user (dq_projectId data) deployment))))))"

definition POST_deploy :: "route_env \<Rightarrow> system \<Rightarrow> http_response \<times> system" where
  "POST_deploy renv s =
     (case deploy_handler renv s of
        (Inr response, s1) \<Rightarrow> (response, s1)
      | (Inl e, s1) \<Rightarrow> (error_response ''Failed to deploy'' e, s1))"

section \<open>A sample run\<close>

text \<open>
  An outside world in which every remote call answers and every local step works: the
  repository does not exist yet, the Vercel project does, and the deployment is READY at
  the third status request. The requests start at clock 1000 with nothing recorded.
\<close>

definition sample_deployment :: "deployment_state \<Rightarrow> VercelDeployment" where
  "sample_deployment st = \<lparr>vd_id = ''dpl_1'', vd_url = ''demo.vercel.app'', vd_state = st\<rparr>"

definition sample_env :: env where
  "sample_env =
     \<lparr>VERCEL_TOKEN = Some ''vercel-token'',
      NETLIFY_TOKEN = None,
      GITHUB_TOKEN = Some ''github-token'',
      vercel_getProject = Responded (Some \<lparr>vp_id = ''prj_1'', vp_name = ''demo''\<rparr>),
      vercel_createProject = Responded \<lparr>vp_id = ''prj_1'', vp_name = ''demo''\<rparr>,
      vercel_setEnvironmentVariables = Responded (),
      vercel_deploy = Responded (sample_deployment QUEUED),
      vercel_getDeployment =
        (\<lambda>n. (200, Responded (sample_deployment (if n < 2 then BUILDING else READY)))),
      users_getAuthenticated = Inr ''octocat'',
      repos_get = Inl (Thrown ErrorObject ''Not Found'' (Some 404)),
      repos_createForAuthenticatedUser = Inr (),
      tmpdir = ''/tmp'',
      path_join = (\<lambda>a b. if b = [] then a else a @ ''/'' @ map char_of b),
      step_fails = (\<lambda>_. None),
      log_latest_hash = Some ''0a1b2c3'',
      arg_type_error =
        (\<lambda>name received.
           TypeError (''The \"'' @ name @ ''\" argument must be of type string.'' @
                      (case received of None \<Rightarrow> '' Received undefined'' | Some _ \<Rightarrow> [])))\<rparr>"

definition sample_world :: world where
  "sample_world = \<lparr>trace = [], entered = [], clock = 1000, paths = {}, polls = 0\<rparr>"

text \<open>
  A project in DRAFT at version 1, its owner signed in, a datastore in which every call
  works and whose connection carries no user, and an LLM provider that answers with one
  file.
\<close>

definition sample_project :: Project where
  "sample_project =
     \<lparr>p_name = ''Todo App'', p_description = None, p_status = DRAFT,
      p_techStack = [''React''], p_prompt = Some ''Build a todo app'',
      p_generatedFiles = None, p_githubRepo = None, p_deploymentUrl = None,
      p_version = 1, p_ownerId = ''u1'', p_lastDeployedAt = None\<rparr>"

definition sample_system :: system where
  "sample_system =
     \<lparr>db = \<lparr>projects = [''p1'' \<mapsto> sample_project], codeGenerations = [],
             deployments = [], auditLogs = []\<rparr>,
      ext = sample_world\<rparr>"

definition sample_route_env :: route_env where
  "sample_route_env =
     \<lparr>session = Inr (Some \<lparr>su_id = ''u1'', su_role = USER\<rparr>),
      generate_request =
        Inr \<lparr>g_projectId = ''p1'', g_prompt = None, g_provider = None, g_model = None\<rparr>,
      deploy_request =
        Inr \<lparr>dq_projectId = ''p1'', dq_provider = ''vercel'', dq_envVariables = None,
             dq_createGitHubRepo = True, dq_isPrivate = True\<rparr>,
      db_fails = (\<lambda>_. None),
      connection = \<lparr>current_user_id = None, jwt_claims = False, service_role = False\<rparr>,
      prisma_error =
        (\<lambda>e. case e of
               RecordNotFound \<Rightarrow> Error ''Record to update not found''
             | DbException exception \<Rightarrow> Error exception),
      llm_generate =
        Inr \<lparr>gen_content = js ''{\"files\":[{\"path\":\"index.js\",\"content\":\"...\"}]}'',
             gen_model = ''claude-sonnet-4-20250514'', gen_usage = (120, 45),
             gen_durationMs = 900\<rparr>,
      adapters = sample_env\<rparr>"


section \<open>The status transition check\<close>

text \<open>
  C1, as stated, fails: the trigger accepts the transition from DRAFT to FAILED, which is
  a change of status that the enumeration of the specification does not list.
\<close>

theorem status_check_accepts_unlisted_transition:
  "trigger_validate_project_status DRAFT FAILED = Inr FAILED
   \<and> DRAFT \<noteq> FAILED
   \<and> (DRAFT, FAILED) \<notin> set spec_enumerated_transitions"
  by (simp add: trigger_validate_project_status_def valid_transitions_def
                spec_enumerated_transitions_def)

text \<open>
  C1, amended: the transition check accepts exactly the same-state transitions, the
  transitions the specification enumerates, and five more that the trigger's table lists
  (DRAFT to FAILED, GENERATED to DRAFT, GENERATED to FAILED, DEPLOYED to DEPLOYING,
  DEPLOYED to DRAFT); every other pair is rejected with an error that names the old and
  the new status, and two different pairs never share an error.
\<close>

theorem status_check_follows_trigger_table:
  "trigger_validate_project_status old new =
     (if old = new \<or> (old, new) \<in> set spec_enumerated_transitions
         \<or> (old, new) \<in> {(DRAFT, FAILED), (GENERATED, DRAFT), (GENERATED, FAILED),
                            (DEPLOYED, DEPLOYING), (DEPLOYED, DRAFT)}
      then Inr new
      else Inl (''Invalid project status transition from '' @ status_text old @
                '' to '' @ status_text new))
   \<and> (invalid_transition_message old new = invalid_transition_message old' new'
        \<longrightarrow> old = old' \<and> new = new')"
proof
  show "trigger_validate_project_status old new =
     (if old = new \<or> (old, new) \<in> set spec_enumerated_transitions
         \<or> (old, new) \<in> {(DRAFT, FAILED), (GENERATED, DRAFT), (GENERATED, FAILED),
                            (DEPLOYED, DEPLOYING), (DEPLOYED, DRAFT)}
      then Inr new
      else Inl (''Invalid project status transition from '' @ status_text old @
                '' to '' @ status_text new))"
    by (cases old; cases new;
        simp add: trigger_validate_project_status_def valid_transitions_def
                  spec_enumerated_transitions_def invalid_transition_message_def)
  show "invalid_transition_message old new = invalid_transition_message old' new'
        \<longrightarrow> old = old' \<and> new = new'"
    by (cases old; cases new; cases old'; cases new';
        simp add: invalid_transition_message_def)
qed

theorem status_check_follows_trigger_table_witness:
  "trigger_validate_project_status GENERATED GENERATING
     = Inl ''Invalid project status transition from GENERATED to GENERATING''
   \<and> trigger_validate_project_status GENERATED DRAFT = Inr DRAFT"
  using status_check_follows_trigger_table [of GENERATED GENERATING]
        status_check_follows_trigger_table [of GENERATED DRAFT]
  by (simp add: spec_enumerated_transitions_def)

section \<open>The response parser\<close>

text \<open>
  C7: parsing the response that is exactly \<open>{"files":[]}\<close> succeeds with the empty list
  of files.
\<close>

theorem empty_files_array_parses:
  "parseCodeGenerationResponse (js ''{\"files\":[]}'') = Inr []"
  by code_simp

text \<open>
  The fuel of \<open>JSON_parse\<close> is enough: every call of the descent leaves less input
  than it got, and the descent over a text never runs out of fuel.
\<close>

lemma skip_ws_length: "length (skip_ws s) \<le> length s"
  by (simp add: skip_ws_def length_dropWhile_le)

lemma skip_ws_Cons: "skip_ws s = c # cs \<Longrightarrow> length cs < length s"
  using skip_ws_length [of s] by simp

lemma string_body_shorter: "string_body s = Some (str, r) \<Longrightarrow> length r < length s"
proof (induction s arbitrary: str r rule: string_body.induct)
  case 1
  then show ?case by simp
next
  case (2 c cs)
  then show ?case
    by (fastforce split: if_splits list.splits option.splits)
qed

lemma number_int_shorter: "number_int s = Some (l, r) \<Longrightarrow> length r < length s"
  by (auto simp: number_int_def split: list.splits if_splits
           intro: le_imp_less_Suc length_dropWhile_le)

lemma number_frac_shorter: "number_frac s = Some (l, r) \<Longrightarrow> length r \<le> length s"
  by (auto simp: number_frac_def split: list.splits if_splits
           intro: le_SucI length_dropWhile_le)

lemma dropWhile_le_Suc2: "length (dropWhile P xs) \<le> Suc (Suc (length xs))"
  using length_dropWhile_le [of P xs] by simp

lemma number_exp_shorter: "number_exp s = Some (l, r) \<Longrightarrow> length r \<le> length s"
  by (auto simp: number_exp_def Let_def dropWhile_le_Suc2 split: list.splits if_splits
           intro: le_SucI length_dropWhile_le)

lemma number_shorter: "number s = Some (l, r) \<Longrightarrow> length r < length s"
proof -
  assume a: "number s = Some (l, r)"
  then obtain k :: nat and i r1 f r2 e where
    i: "number_int (drop k s) = Some (i, r1)"
    and f: "number_frac r1 = Some (f, r2)"
    and e: "number_exp r2 = Some (e, r)"
    unfolding number_def Let_def by (auto split: option.splits)
  from number_int_shorter [OF i] number_frac_shorter [OF f] number_exp_shorter [OF e]
  show ?thesis by simp
qed

lemma scalar_shorter: "scalar s = Some (v, r) \<Longrightarrow> length r < length s"
  by (cases s) (auto simp: scalar_def split: if_splits dest: string_body_shorter number_shorter)

lemma parse_shorter:
  "(parse_value n s = Parsed v r \<longrightarrow> length r < length s)
   \<and> (parse_elements n acc s = Parsed v r \<longrightarrow> length r < length s)
   \<and> (parse_members n macc s = Parsed v r \<longrightarrow> length r < length s)"
proof (induction n arbitrary: s acc macc v r)
  case 0
  then show ?case by simp
next
  case (Suc n)
  have V: "parse_value n s = Parsed v r \<Longrightarrow> length r < length s" for s v r
    using Suc by blast
  have E: "parse_elements n acc s = Parsed v r \<Longrightarrow> length r < length s" for s v r acc
    using Suc by blast
  have M: "parse_members n macc s = Parsed v r \<Longrightarrow> length r < length s" for s v r macc
    using Suc by blast
  have 1: "parse_value (Suc n) s = Parsed v r \<longrightarrow> length r < length s"
    by (auto split: list.splits if_splits option.splits
             dest!: skip_ws_Cons scalar_shorter E M)
  have 2: "parse_elements (Suc n) acc s = Parsed v r \<longrightarrow> length r < length s"
    by (auto split: list.splits if_splits parsed.splits
             dest!: skip_ws_Cons V E)
  have 3: "parse_members (Suc n) macc s = Parsed v r \<longrightarrow> length r < length s"
    by (auto split: list.splits if_splits parsed.splits option.splits
             dest!: skip_ws_Cons string_body_shorter V M)
  from 1 2 3 show ?case by blast
qed

lemma parse_fuel:
  "(2 * length s + 1 \<le> n \<longrightarrow> parse_value n s \<noteq> OutOfFuel)
   \<and> (2 * length s + 2 \<le> n \<longrightarrow> parse_elements n acc s \<noteq> OutOfFuel)
   \<and> (2 * length s + 2 \<le> n \<longrightarrow> parse_members n macc s \<noteq> OutOfFuel)"
proof (induction n arbitrary: s acc macc)
  case 0
  then show ?case by simp
next
  case (Suc n)
  have V: "2 * length s + 1 \<le> n \<Longrightarrow> parse_value n s \<noteq> OutOfFuel" for s
    using Suc by blast
  have E: "2 * length s + 2 \<le> n \<Longrightarrow> parse_elements n acc s \<noteq> OutOfFuel" for s acc
    using Suc by blast
  have M: "2 * length s + 2 \<le> n \<Longrightarrow> parse_members n macc s \<noteq> OutOfFuel" for s macc
    using Suc by blast
  have 1: "2 * length s + 1 \<le> Suc n \<longrightarrow> parse_value (Suc n) s \<noteq> OutOfFuel"
  proof
    assume n: "2 * length s + 1 \<le> Suc n"
    show "parse_value (Suc n) s \<noteq> OutOfFuel"
    proof (cases "skip_ws s")
      case Nil
      then show ?thesis by simp
    next
      case (Cons c cs)
      then have cs: "length cs < length s" by (rule skip_ws_Cons)
      show ?thesis
      proof (cases "skip_ws cs")
        case Nil
        with Cons show ?thesis by (simp split: option.splits)
      next
        case (Cons d ds)
        then have "length ds < length cs" by (rule skip_ws_Cons)
        with cs n have "2 * length (d # ds) + 2 \<le> n" by simp
        then have "parse_elements n [] (d # ds) \<noteq> OutOfFuel"
          and "parse_members n [] (d # ds) \<noteq> OutOfFuel"
          using E M by blast+
        with \<open>skip_ws s = c # cs\<close> Cons show ?thesis by (auto split: option.splits)
      qed
    qed
  qed
  have 2: "2 * length s + 2 \<le> Suc n \<longrightarrow> parse_elements (Suc n) acc s \<noteq> OutOfFuel"
  proof
    assume n: "2 * length s + 2 \<le> Suc n"
    then have v: "parse_value n s \<noteq> OutOfFuel" using V by simp
    show "parse_elements (Suc n) acc s \<noteq> OutOfFuel"
    proof (cases "parse_value n s")
      case OutOfFuel
      with v show ?thesis by simp
    next
      case Unexpected
      then show ?thesis by simp
    next
      case (Parsed x r)
      then have r: "length r < length s" using parse_shorter by blast
      show ?thesis
      proof (cases "skip_ws r")
        case Nil
        with Parsed show ?thesis by simp
      next
        case (Cons c cs)
        then have "length cs < length r" by (rule skip_ws_Cons)
        with r n have "2 * length cs + 2 \<le> n" by simp
        then have "parse_elements n (acc @ [x]) cs \<noteq> OutOfFuel" using E by blast
        with Parsed Cons show ?thesis by simp
      qed
    qed
  qed
  have 3: "2 * length s + 2 \<le> Suc n \<longrightarrow> parse_members (Suc n) macc s \<noteq> OutOfFuel"
  proof
    assume n: "2 * length s + 2 \<le> Suc n"
    show "parse_members (Suc n) macc s \<noteq> OutOfFuel"
    proof (cases "skip_ws s")
      case Nil
      then show ?thesis by simp
    next
      case sq: (Cons q cs)
      then have cs: "length cs < length s" by (rule skip_ws_Cons)
      show ?thesis
      proof (cases "string_body cs")
        case None
        with sq show ?thesis by simp
      next
        case (Some kr)
        obtain key r1 where kr: "kr = (key, r1)" by (cases kr)
        with Some have r1: "length r1 < length cs" using string_body_shorter by blast
        show ?thesis
        proof (cases "skip_ws r1")
          case Nil
          with sq Some kr show ?thesis by simp
        next
          case c: (Cons c r2)
          then have r2: "length r2 < length r1" by (rule skip_ws_Cons)
          with r1 cs n have "2 * length r2 + 1 \<le> n" by simp
          then have v: "parse_value n r2 \<noteq> OutOfFuel" using V by blast
          show ?thesis
          proof (cases "parse_value n r2")
            case OutOfFuel
            with v show ?thesis by simp
          next
            case Unexpected
            with sq Some kr c show ?thesis by simp
          next
            case (Parsed x r3)
            then have r3: "length r3 < length r2" using parse_shorter by blast
            show ?thesis
            proof (cases "skip_ws r3")
              case Nil
              with sq Some kr c Parsed show ?thesis by simp
            next
              case d: (Cons d r4)
              then have "length r4 < length r3" by (rule skip_ws_Cons)
              with r3 r2 r1 cs n have "2 * length r4 + 2 \<le> n" by simp
              then have "parse_members n (macc @ [(key, x)]) r4 \<noteq> OutOfFuel" using M by blast
              with sq Some kr c Parsed d show ?thesis by simp
            qed
          qed
        qed
      qed
    qed
  qed
  from 1 2 3 show ?case by blast
qed

lemma JSON_parse_fuel: "parse_value (2 * length text + 1) text \<noteq> OutOfFuel"
  using parse_fuel by blast

text \<open>
  C8: whenever the parser fails, the error it raises is the one collapsed error, whatever
  the cause: no brace-delimited substring with \<open>"files"\<close>, a substring that is not
  JSON, or a parsed value whose \<open>files\<close> is not an array.
\<close>

theorem parse_failures_collapse:
  "(parseCodeGenerationResponse response = Inl e
      \<longrightarrow> e = Error ''Failed to parse generated code response'')
   \<and> (str_match files_pattern response = None
      \<longrightarrow> parseCodeGenerationResponse response
            = Inl (Error ''Failed to parse generated code response''))
   \<and> (str_match files_pattern response = Some jsonMatch \<and> JSON_parse jsonMatch = Inl cause
      \<longrightarrow> parseCodeGenerationResponse response
            = Inl (Error ''Failed to parse generated code response''))
   \<and> (str_match files_pattern response = Some jsonMatch \<and> JSON_parse jsonMatch = Inr parsed
        \<and> (\<forall>files. get_property parsed ''files'' \<noteq> Inr (Some (JArray files)))
      \<longrightarrow> parseCodeGenerationResponse response
            = Inl (Error ''Failed to parse generated code response''))"
proof (intro conjI impI)
  show "e = Error ''Failed to parse generated code response''"
    if "parseCodeGenerationResponse response = Inl e"
    using that by (simp add: parseCodeGenerationResponse_def split: sum.splits)
  show "parseCodeGenerationResponse response = Inl (Error ''Failed to parse generated code response'')"
    if "str_match files_pattern response = None"
    using that by (simp add: parseCodeGenerationResponse_def extract_files_def)
  show "parseCodeGenerationResponse response = Inl (Error ''Failed to parse generated code response'')"
    if "str_match files_pattern response = Some jsonMatch \<and> JSON_parse jsonMatch = Inl cause"
    using that by (simp add: parseCodeGenerationResponse_def extract_files_def)
  show "parseCodeGenerationResponse response = Inl (Error ''Failed to parse generated code response'')"
    if "str_match files_pattern response = Some jsonMatch \<and> JSON_parse jsonMatch = Inr parsed
        \<and> (\<forall>files. get_property parsed ''files'' \<noteq> Inr (Some (JArray files)))"
    using that
    by (auto simp: parseCodeGenerationResponse_def extract_files_def
             split: sum.splits option.splits json.splits)
qed

theorem parse_failures_collapse_witness:
  "parseCodeGenerationResponse (js ''This is just plain text without JSON'')
     = Inl (Error ''Failed to parse generated code response'')
   \<and> parseCodeGenerationResponse (js ''{\"files\": \"not an array\"}'')
     = Inl (Error ''Failed to parse generated code response'')
   \<and> parseCodeGenerationResponse (js ''{\"files\": [}'')
     = Inl (Error ''Failed to parse generated code response'')"
proof -
  have none: "str_match files_pattern (js ''This is just plain text without JSON'') = None"
    by code_simp
  have m1: "str_match files_pattern (js ''{\"files\": \"not an array\"}'')
            = Some (js ''{\"files\": \"not an array\"}'')"
    by code_simp
  have p1: "JSON_parse (js ''{\"files\": \"not an array\"}'')
            = Inr (JObject [(js ''files'', JString (js ''not an array''))])"
    by code_simp
  have g1: "\<forall>files. get_property (JObject [(js ''files'', JString (js ''not an array''))]) ''files''
                   \<noteq> Inr (Some (JArray files))"
    by (simp add: get_property_def)
  have m2: "str_match files_pattern (js ''{\"files\": [}'') = Some (js ''{\"files\": [}'')"
    by code_simp
  have p2: "JSON_parse (js ''{\"files\": [}'') = Inl SyntaxError"
    by code_simp
  from parse_failures_collapse [of "js ''This is just plain text without JSON''"] none
  have "parseCodeGenerationResponse (js ''This is just plain text without JSON'')
     = Inl (Error ''Failed to parse generated code response'')" by blast
  moreover from parse_failures_collapse
    [of "js ''{\"files\": \"not an array\"}''" _ "js ''{\"files\": \"not an array\"}''" _
        "JObject [(js ''files'', JString (js ''not an array''))]"] m1 p1 g1
  have "parseCodeGenerationResponse (js ''{\"files\": \"not an array\"}'')
     = Inl (Error ''Failed to parse generated code response'')" by blast
  moreover from parse_failures_collapse
    [of "js ''{\"files\": [}''" _ "js ''{\"files\": [}''" SyntaxError] m2 p2
  have "parseCodeGenerationResponse (js ''{\"files\": [}'')
     = Inl (Error ''Failed to parse generated code response'')" by blast
  ultimately show ?thesis by blast
qed

section \<open>The deploy-wait loop\<close>











section \<open>The entry points of the deploy target\<close>

lemma deployToVercel_caught:
  "deployToVercel env config w =
     (case deployToVercel_body env config (enter ''deployToVercel'' w) of
        (Inl e, w1) \<Rightarrow> (Inr (failure_result (message_or e ''Unknown error occurred'')), w1)
      | (Inr r, w1) \<Rightarrow> (Inr r, w1))"
  by (simp add: deployToVercel_def try_catch_def return_io_def split: prod.splits sum.splits)

lemma deployToVercel_resolves: "\<exists>r w1. deployToVercel env config w = (Inr r, w1)"
  by (simp add: deployToVercel_caught split: prod.splits sum.splits)

text \<open>
  C10: \<open>deployToVercel\<close> and \<open>deploy\<close> always resolve with a result and never throw.
  An error thrown inside \<open>deployToVercel\<close> (a missing token, an HTTP error, a state
  that is not READY, a timeout) comes back as a result with \<open>success = false\<close> and the
  error's message, from \<open>deployToVercel\<close> and, when the provider is vercel, from
  \<open>deploy\<close> as well; the message of an \<open>Error\<close> is the text it was made with. For a
  provider other than vercel, \<open>deploy\<close> returns a failure while the world stays as it
  was: no request, no file, no time.
\<close>

theorem deploy_entry_points_never_throw:
  "(\<exists>r w1. deployToVercel env config w = (Inr r, w1))
   \<and> (\<exists>r w1. deploy env options w = (Inr r, w1))
   \<and> (deployToVercel_body env config (enter ''deployToVercel'' w) = (Inl e, w1) \<longrightarrow>
        deployToVercel env config w =
          (Inr \<lparr>dr_success = False, dr_url = None, dr_deploymentId = None, dr_logs = None,
                dr_error = Some (message_or e ''Unknown error occurred'')\<rparr>, w1))
   \<and> (\<not> truthy (VERCEL_TOKEN env) \<longrightarrow>
        deployToVercel env config w =
          (Inr \<lparr>dr_success = False, dr_url = None, dr_deploymentId = None, dr_logs = None,
                dr_error = Some ''Vercel token not configured''\<rparr>,
           w\<lparr>entered := entered w @ [''deployToVercel'']\<rparr>))
   \<and> (do_provider options = ''vercel''
        \<and> deployToVercel_body env
             \<lparr>dc_provider = ''vercel'', dc_projectName = do_projectName options,
              dc_envVariables = do_envVariables options,
              dc_buildCommand = do_buildCommand options,
              dc_outputDirectory = do_outputDirectory options\<rparr>
             (enter ''deployToVercel'' (enter ''deploy'' w)) = (Inl e, w1) \<longrightarrow>
        deploy env options w =
          (Inr \<lparr>dr_success = False, dr_url = None, dr_deploymentId = None, dr_logs = None,
                dr_error = Some (message_or e ''Unknown error occurred'')\<rparr>, w1))
   \<and> (do_provider options = ''vercel'' \<and> \<not> truthy (VERCEL_TOKEN env) \<longrightarrow>
        deploy env options w =
          (Inr \<lparr>dr_success = False, dr_url = None, dr_deploymentId = None, dr_logs = None,
                dr_error = Some ''Vercel token not configured''\<rparr>,
           w\<lparr>entered := entered w @ [''deploy'', ''deployToVercel'']\<rparr>))
   \<and> (do_provider options \<noteq> ''vercel'' \<longrightarrow>
        (\<exists>msg. deploy env options w =
          (Inr \<lparr>dr_success = False, dr_url = None, dr_deploymentId = None, dr_logs = None,
                dr_error = Some msg\<rparr>,
           w\<lparr>entered := entered w @ [''deploy'']\<rparr>)))
   \<and> message_or (Error msg) ''Unknown error occurred'' = msg"
proof (intro conjI impI)
  show "\<exists>r w1. deployToVercel env config w = (Inr r, w1)"
    by (rule deployToVercel_resolves)
  show "\<exists>r w1. deploy env options w = (Inr r, w1)"
    using deployToVercel_resolves by (simp add: deploy_def Let_def)
  show "deployToVercel env config w =
          (Inr \<lparr>dr_success = False, dr_url = None, dr_deploymentId = None, dr_logs = None,
                dr_error = Some (message_or e ''Unknown error occurred'')\<rparr>, w1)"
    if "deployToVercel_body env config (enter ''deployToVercel'' w) = (Inl e, w1)"
    using that by (simp add: deployToVercel_caught failure_result_def)
  show "deployToVercel env config w =
          (Inr \<lparr>dr_success = False, dr_url = None, dr_deploymentId = None, dr_logs = None,
                dr_error = Some ''Vercel token not configured''\<rparr>,
           w\<lparr>entered := entered w @ [''deployToVercel'']\<rparr>)"
    if "\<not> truthy (VERCEL_TOKEN env)"
    using that
    by (simp add: deployToVercel_caught deployToVercel_body_def new_VercelService_def
                  then_io_def throw_io_def failure_result_def message_or_def Error_def
                  isError_def enter_def)
  show "deploy env options w =
          (Inr \<lparr>dr_success = False, dr_url = None, dr_deploymentId = None, dr_logs = None,
                dr_error = Some (message_or e ''Unknown error occurred'')\<rparr>, w1)"
    if "do_provider options = ''vercel''
        \<and> deployToVercel_body env
             \<lparr>dc_provider = ''vercel'', dc_projectName = do_projectName options,
              dc_envVariables = do_envVariables options,
              dc_buildCommand = do_buildCommand options,
              dc_outputDirectory = do_outputDirectory options\<rparr>
             (enter ''deployToVercel'' (enter ''deploy'' w)) = (Inl e, w1)"
    using that by (simp add: deploy_def Let_def deployToVercel_caught failure_result_def)
  show "deploy env options w =
          (Inr \<lparr>dr_success = False, dr_url = None, dr_deploymentId = None, dr_logs = None,
                dr_error = Some ''Vercel token not configured''\<rparr>,
           w\<lparr>entered := entered w @ [''deploy'', ''deployToVercel'']\<rparr>)"
    if "do_provider options = ''vercel'' \<and> \<not> truthy (VERCEL_TOKEN env)"
    using that
    by (simp add: deploy_def Let_def deployToVercel_caught deployToVercel_body_def
                  new_VercelService_def then_io_def throw_io_def failure_result_def
                  message_or_def Error_def isError_def enter_def)
  show "\<exists>msg. deploy env options w =
          (Inr \<lparr>dr_success = False, dr_url = None, dr_deploymentId = None, dr_logs = None,
                dr_error = Some msg\<rparr>,
           w\<lparr>entered := entered w @ [''deploy'']\<rparr>)"
    if "do_provider options \<noteq> ''vercel''"
    using that by (simp add: deploy_def Let_def failure_result_def enter_def)
  show "message_or (Error msg) ''Unknown error occurred'' = msg"
    by (simp add: message_or_def Error_def isError_def)
qed

theorem deploy_entry_points_never_throw_witness:
  "deployToVercel (sample_env\<lparr>VERCEL_TOKEN := None\<rparr>)
       \<lparr>dc_provider = ''vercel'', dc_projectName = ''demo'', dc_envVariables = None,
        dc_buildCommand = None, dc_outputDirectory = None\<rparr> sample_world
     = (Inr \<lparr>dr_success = False, dr_url = None, dr_deploymentId = None, dr_logs = None,
             dr_error = Some ''Vercel token not configured''\<rparr>,
        sample_world\<lparr>entered := [''deployToVercel'']\<rparr>)
   \<and> deployToVercel (sample_env\<lparr>vercel_deploy := NotOk 500 None\<rparr>)
       \<lparr>dc_provider = ''vercel'', dc_projectName = ''demo'', dc_envVariables = None,
        dc_buildCommand = None, dc_outputDirectory = None\<rparr> sample_world
     = (Inr \<lparr>dr_success = False, dr_url = None, dr_deploymentId = None, dr_logs = None,
             dr_error = Some ''Vercel API error: 500 - {}''\<rparr>,
        sample_world\<lparr>trace := [VercelRequest ''GET'' ''/v9/projects/demo'',
                                VercelRequest ''POST'' ''/v13/deployments''],
                      entered := [''deployToVercel'']\<rparr>)
   \<and> fst (deploy (sample_env\<lparr>vercel_getProject := NotOk 403 (Some ''Forbidden'')\<rparr>)
        \<lparr>do_provider = ''vercel'', do_projectName = ''demo'', do_files = [],
         do_envVariables = None, do_buildCommand = None, do_outputDirectory = None\<rparr> sample_world)
     = Inr \<lparr>dr_success = False, dr_url = None, dr_deploymentId = None, dr_logs = None,
            dr_error = Some ''Vercel API error: 403 - Forbidden''\<rparr>
   \<and> (\<exists>msg. deploy sample_env
        \<lparr>do_provider = ''netlify'', do_projectName = ''demo'', do_files = [],
         do_envVariables = None, do_buildCommand = None, do_outputDirectory = None\<rparr> sample_world
     = (Inr \<lparr>dr_success = False, dr_url = None, dr_deploymentId = None, dr_logs = None,
             dr_error = Some msg\<rparr>,
        sample_world\<lparr>entered := [''deploy'']\<rparr>))"
proof -
  let ?config = "\<lparr>dc_provider = ''vercel'', dc_projectName = ''demo'', dc_envVariables = None,
                  dc_buildCommand = None, dc_outputDirectory = None\<rparr>"
  let ?w1 = "sample_world\<lparr>trace := [VercelRequest ''GET'' ''/v9/projects/demo'',
                                     VercelRequest ''POST'' ''/v13/deployments''],
                           entered := [''deployToVercel'']\<rparr>"
  let ?failing = "sample_env\<lparr>vercel_getProject := NotOk 403 (Some ''Forbidden'')\<rparr>"
  let ?options = "\<lparr>do_provider = ''vercel'', do_projectName = ''demo'', do_files = [],
         do_envVariables = None, do_buildCommand = None, do_outputDirectory = None\<rparr>"
  let ?body = "deployToVercel_body ?failing ?config
                 (enter ''deployToVercel'' (enter ''deploy'' sample_world))"
  have body: "deployToVercel_body (sample_env\<lparr>vercel_deploy := NotOk 500 None\<rparr>) ?config
                (enter ''deployToVercel'' sample_world)
              = (Inl (Error ''Vercel API error: 500 - {}''), ?w1)"
    by code_simp
  have msg: "message_or (Error ''Vercel API error: 500 - {}'') ''Unknown error occurred''
             = ''Vercel API error: 500 - {}''"
    by (simp add: message_or_def Error_def isError_def)
  from deploy_entry_points_never_throw
         [where env = "sample_env\<lparr>vercel_deploy := NotOk 500 None\<rparr>" and config = ?config
            and w = sample_world and e = "Error ''Vercel API error: 500 - {}''" and ?w1.0 = ?w1]
       body msg
  have http: "deployToVercel (sample_env\<lparr>vercel_deploy := NotOk 500 None\<rparr>) ?config sample_world
     = (Inr \<lparr>dr_success = False, dr_url = None, dr_deploymentId = None, dr_logs = None,
             dr_error = Some ''Vercel API error: 500 - {}''\<rparr>, ?w1)"
    by simp
  from deploy_entry_points_never_throw
         [where env = "sample_env\<lparr>VERCEL_TOKEN := None\<rparr>" and config = ?config
            and w = sample_world]
  have token: "deployToVercel (sample_env\<lparr>VERCEL_TOKEN := None\<rparr>) ?config sample_world
     = (Inr \<lparr>dr_success = False, dr_url = None, dr_deploymentId = None, dr_logs = None,
             dr_error = Some ''Vercel token not configured''\<rparr>,
        sample_world\<lparr>entered := [''deployToVercel'']\<rparr>)"
    by (simp add: sample_env_def sample_world_def truthy_def)
  have thrown: "fst ?body = Inl (Error ''Vercel API error: 403 - Forbidden'')"
    by code_simp
  have pair: "?body = (Inl (Error ''Vercel API error: 403 - Forbidden''), snd ?body)"
    using thrown by (cases ?body) simp
  have config: "\<lparr>dc_provider = ''vercel'', dc_projectName = do_projectName ?options,
              dc_envVariables = do_envVariables ?options,
              dc_buildCommand = do_buildCommand ?options,
              dc_outputDirectory = do_outputDirectory ?options\<rparr> = ?config"
    by simp
  from deploy_entry_points_never_throw
         [where env = ?failing and options = ?options and w = sample_world
            and e = "Error ''Vercel API error: 403 - Forbidden''" and ?w1.0 = "snd ?body"
            and msg = "''Vercel API error: 403 - Forbidden''"]
       pair
  have state: "fst (deploy ?failing ?options sample_world)
     = Inr \<lparr>dr_success = False, dr_url = None, dr_deploymentId = None, dr_logs = None,
            dr_error = Some ''Vercel API error: 403 - Forbidden''\<rparr>"
    by simp
  from deploy_entry_points_never_throw
         [where env = sample_env and w = sample_world and options =
             "\<lparr>do_provider = ''netlify'', do_projectName = ''demo'', do_files = [],
               do_envVariables = None, do_buildCommand = None, do_outputDirectory = None\<rparr>"]
  have other: "\<exists>msg. deploy sample_env
        \<lparr>do_provider = ''netlify'', do_projectName = ''demo'', do_files = [],
         do_envVariables = None, do_buildCommand = None, do_outputDirectory = None\<rparr> sample_world
     = (Inr \<lparr>dr_success = False, dr_url = None, dr_deploymentId = None, dr_logs = None,
             dr_error = Some msg\<rparr>,
        sample_world\<lparr>entered := [''deploy'']\<rparr>)"
    by (simp add: sample_world_def)
  from token http state other show ?thesis by blast
qed

section \<open>The temporary directory of the push\<close>




section \<open>The pipeline after a failure of the source host\<close>

lemma entered_then:
  assumes "\<And>w. entered (snd (m w)) = entered w"
    and "\<And>a w. entered (snd (k a w)) = entered w"
  shows "entered (snd (then_io m k w)) = entered w"
proof (cases "m w")
  case (Pair r w1)
  with assms(1) [of w] have "entered w1 = entered w" by simp
  with Pair assms(2) show ?thesis
    by (cases r) (simp_all add: then_io_def)
qed

lemma entered_catch:
  assumes "\<And>w. entered (snd (m w)) = entered w"
    and "\<And>e w. entered (snd (h e w)) = entered w"
  shows "entered (snd (try_catch m h w)) = entered w"
proof (cases "m w")
  case (Pair r w1)
  with assms(1) [of w] have "entered w1 = entered w" by simp
  with Pair assms(2) show ?thesis
    by (cases r) (simp_all add: try_catch_def)
qed

lemma entered_finally:
  assumes "\<And>w. entered (snd (m w)) = entered w"
    and "\<And>w. entered (snd (c w)) = entered w"
  shows "entered (snd (try_finally m c w)) = entered w"
proof (cases "m w")
  case (Pair r w1)
  with assms(1) [of w] have "entered w1 = entered w" by simp
  with Pair assms(2) [of w1] show ?thesis
    by (cases "c w1") (auto simp: try_finally_def split: sum.splits)
qed

lemma entered_return: "entered (snd (return_io a w)) = entered w"
  by (simp add: return_io_def)

lemma entered_throw: "entered (snd (throw_io e w)) = entered w"
  by (simp add: throw_io_def)

lemma entered_step: "entered (snd (step env st ev w)) = entered w"
  by (simp add: step_def emit_def split: option.splits)

lemma entered_octokit: "entered (snd (octokit ep a w)) = entered w"
  by (simp add: octokit_def emit_def)

lemma entered_mkdir: "entered (snd (mkdir env st p w)) = entered w"
  by (simp add: mkdir_def then_io_def step_def emit_def split: option.splits)

lemma entered_writeFile: "entered (snd (writeFile env st p w)) = entered w"
  by (simp add: writeFile_def then_io_def step_def emit_def split: option.splits)

lemma entered_rm: "entered (snd (rm env st p w)) = entered w"
  by (simp add: rm_def then_io_def step_def emit_def split: option.splits)

lemmas entered_simps =
  entered_return entered_throw entered_step entered_octokit entered_mkdir entered_writeFile
  entered_rm

lemma entered_write_file: "entered (snd (write_file env tempDir i file w)) = entered w"
  unfolding write_file_def Let_def
  by (auto split: option.splits json.splits intro!: entered_then simp: entered_simps)

lemma entered_write_files: "entered (snd (write_files env tempDir i files w)) = entered w"
  by (induction files arbitrary: i w) (auto intro!: entered_then simp: entered_simps entered_write_file)

lemma entered_pushFiles: "entered (snd (pushFiles env config options w)) = entered w"
  unfolding pushFiles_def pushFiles_body_def Let_def
  by (intro entered_finally entered_then entered_catch)
     (simp_all add: entered_simps entered_write_files)

lemma entered_github_body:
  "entered (snd (createAndPushToGitHub_body env options w)) = entered w"
  unfolding createAndPushToGitHub_body_def getAuthenticatedUser_def createRepository_def
    repoExists_def new_GitHubService_def
  by (intro entered_then entered_catch)
     (simp_all add: entered_simps entered_pushFiles)

lemma createAndPushToGitHub_entered:
  "entered (snd (createAndPushToGitHub env options w)) = entered w @ [''createAndPushToGitHub'']"
proof -
  have "entered (snd (createAndPushToGitHub env options w))
        = entered (enter ''createAndPushToGitHub'' w)"
    unfolding createAndPushToGitHub_def
    by (intro entered_catch) (simp_all add: entered_simps entered_github_body)
  then show ?thesis by (simp add: enter_def)
qed

lemma createAndPushToGitHub_resolves:
  "\<exists>result w1. createAndPushToGitHub env options w = (Inr result, w1)"
  by (simp add: createAndPushToGitHub_def try_catch_def return_io_def
           split: prod.splits sum.splits)

text \<open>
  C4: the GitHub phase always resolves with a result; when that result has
  \<open>success = false\<close>, the pipeline returns \<open>success = false\<close>, no deployment URL
  and an error message, and the world is the one the GitHub phase left:
  \<open>createAndPushToGitHub\<close> is the only adapter function that was entered, so neither
  \<open>deploy\<close> nor \<open>deployToVercel\<close> was called.
\<close>

theorem pipeline_stops_after_github_failure:
  assumes "createAndPushToGitHub env
             \<lparr>repoName = po_projectName options, gh_description = po_description options,
              gh_files = po_files options, gh_isPrivate = po_isPrivate options\<rparr> w
           = (Inr githubResult, w1)"
    and "\<not> gr_success githubResult"
  shows "fullDeploymentPipeline env options w =
           (Inr \<lparr>success = False, githubUrl = None, deploymentUrl = None,
                 error = Some (''GitHub setup failed: '' @ template_opt (gr_error githubResult))\<rparr>,
            w1)
         \<and> entered w1 = entered w @ [''createAndPushToGitHub'']"
proof
  from assms show "fullDeploymentPipeline env options w =
           (Inr \<lparr>success = False, githubUrl = None, deploymentUrl = None,
                 error = Some (''GitHub setup failed: '' @ template_opt (gr_error githubResult))\<rparr>,
            w1)"
    by (simp add: fullDeploymentPipeline_def then_io_def return_io_def)
  from assms(1) createAndPushToGitHub_entered [of env _ w]
  show "entered w1 = entered w @ [''createAndPushToGitHub'']"
    by (metis snd_conv)
qed

theorem pipeline_stops_after_github_failure_witness:
  "fullDeploymentPipeline (sample_env\<lparr>GITHUB_TOKEN := None\<rparr>)
      \<lparr>po_projectName = ''demo'', po_description = None, po_files = [],
       po_deployProvider = ''vercel'', po_envVariables = None, po_isPrivate = Some True\<rparr>
      sample_world
    = (Inr \<lparr>success = False, githubUrl = None, deploymentUrl = None,
            error = Some ''GitHub setup failed: GitHub token not configured''\<rparr>,
       sample_world\<lparr>entered := [''createAndPushToGitHub'']\<rparr>)"
proof -
  let ?env = "sample_env\<lparr>GITHUB_TOKEN := None\<rparr>"
  let ?options = "\<lparr>po_projectName = ''demo'', po_description = None, po_files = [],
       po_deployProvider = ''vercel'', po_envVariables = None, po_isPrivate = Some True\<rparr>"
  let ?g = "\<lparr>gr_success = False, repoUrl = None,
             gr_error = Some ''GitHub token not configured''\<rparr>"
  have run: "createAndPushToGitHub ?env
             \<lparr>repoName = po_projectName ?options, gh_description = po_description ?options,
              gh_files = po_files ?options, gh_isPrivate = po_isPrivate ?options\<rparr> sample_world
           = (Inr ?g, sample_world\<lparr>entered := [''createAndPushToGitHub'']\<rparr>)"
    by (simp add: createAndPushToGitHub_def createAndPushToGitHub_body_def try_catch_def
                  then_io_def new_GitHubService_def throw_io_def return_io_def truthy_def
                  sample_env_def sample_world_def enter_def message_or_def isError_def Error_def)
  have "\<not> gr_success ?g" by simp
  from pipeline_stops_after_github_failure [OF run this] show ?thesis
    by (simp add: template_opt_def)
qed

section \<open>The deployment guard\<close>

text \<open>
  C5: a deployment request that names a project whose status is not GENERATED, or that has
  no generated files, is answered with an error (a status code of 400 or more), and the
  whole state is as before: no adapter was entered, no request or file-system call was
  made, and no Deployment record was created.
\<close>

theorem deploy_rejected_unless_generated:
  assumes "deploy_request renv = Inr data"
    and "projects (db s) (dq_projectId data) = Some project"
    and "p_status project \<noteq> GENERATED \<or> p_generatedFiles project = None"
  shows "400 \<le> code (fst (POST_deploy renv s))
         \<and> snd (POST_deploy renv s) = s"
proof -
  have st: "(s\<lparr>db := db s\<rparr>) = s" by simp
  show ?thesis
    using assms
    by (cases "session renv"; cases "db_fails renv FindProject")
       (auto simp: POST_deploy_def deploy_handler_def then_io_def answer_def json_response_def
                   return_io_def error_response_def db_do_def project_findUnique_def st
             split: option.splits sum.splits)
qed

theorem deploy_rejected_unless_generated_witness:
  "400 \<le> code (fst (POST_deploy sample_route_env sample_system))
   \<and> snd (POST_deploy sample_route_env sample_system) = sample_system"
proof -
  have r: "deploy_request sample_route_env =
             Inr \<lparr>dq_projectId = ''p1'', dq_provider = ''vercel'', dq_envVariables = None,
                  dq_createGitHubRepo = True, dq_isPrivate = True\<rparr>"
    by (simp add: sample_route_env_def)
  have p: "projects (db sample_system)
             (dq_projectId \<lparr>dq_projectId = ''p1'', dq_provider = ''vercel'', dq_envVariables = None,
                  dq_createGitHubRepo = True, dq_isPrivate = True\<rparr>) = Some sample_project"
    by (simp add: sample_system_def)
  have d: "p_status sample_project \<noteq> GENERATED \<or> p_generatedFiles sample_project = None"
    by (simp add: sample_project_def)
  from deploy_rejected_unless_generated [OF r p d] show ?thesis .
qed

section \<open>The datastore calls of the two flows\<close>

text \<open>
  What each write of the routes does to the tables, the triggers included: the audit
  trigger touches the audit table only, a write of a project goes through the transition
  check, and a write of the status of a CodeGeneration or a Deployment moves the project.
\<close>

lemma then_io_Inr: "m s = (Inr a, s1) \<Longrightarrow> then_io m f s = f a s1"
  by (simp add: then_io_def)

lemma then_io_Inl: "m s = (Inl e, s1) \<Longrightarrow> then_io m f s = (Inl e, s1)"
  by (simp add: then_io_def)



lemma audit_tables:
  "projects (trigger_audit_log ctx a t r d) = projects d"
  "codeGenerations (trigger_audit_log ctx a t r d) = codeGenerations d"
  "deployments (trigger_audit_log ctx a t r d) = deployments d"
  by (simp_all add: trigger_audit_log_def)




lemma update_project_row_accepted:
  assumes "trigger_validate_project_status (p_status old) (p_status new) = Inr x"
  shows "\<exists>d'. update_project_row ctx pid old new d = Inr d'
              \<and> projects d' = (projects d)(pid \<mapsto> new)
              \<and> codeGenerations d' = codeGenerations d
              \<and> deployments d' = deployments d"
  using assms by (simp add: update_project_row_def audit_tables)

lemma update_project_row_refused:
  assumes "trigger_validate_project_status (p_status old) (p_status new) = Inl m"
  shows "update_project_row ctx pid old new d = Inl m"
  using assms by (simp add: update_project_row_def)

lemma project_update_accepted:
  assumes "projects d pid = Some old"
    and "trigger_validate_project_status (p_status old) (p_status (data old)) = Inr x"
  shows "\<exists>d'. project_update renv pid data d = (Inr (), d')
              \<and> projects d' = (projects d)(pid \<mapsto> data old)
              \<and> codeGenerations d' = codeGenerations d
              \<and> deployments d' = deployments d"
proof -
  from update_project_row_accepted [OF assms(2), of "connection renv" pid d]
  obtain d' where "update_project_row (connection renv) pid old (data old) d = Inr d'"
    "projects d' = (projects d)(pid \<mapsto> data old)"
    "codeGenerations d' = codeGenerations d" "deployments d' = deployments d" by blast
  with assms(1) show ?thesis by (simp add: project_update_def)
qed

lemma project_update_refused:
  assumes "projects d pid = Some old"
    and "trigger_validate_project_status (p_status old) (p_status (data old)) = Inl m"
  shows "project_update renv pid data d = (Inl (prisma_error renv (DbException m)), d)"
  using assms by (simp add: project_update_def update_project_row_refused)

lemma project_update_outcome:
  "(\<exists>e. project_update renv pid data d = (Inl e, d))
   \<or> (\<exists>old d'. project_update renv pid data d = (Inr (), d')
         \<and> projects d pid = Some old
         \<and> projects d' = (projects d)(pid \<mapsto> data old)
         \<and> codeGenerations d' = codeGenerations d
         \<and> deployments d' = deployments d)"
proof (cases "projects d pid")
  case None
  then show ?thesis by (simp add: project_update_def)
next
  case (Some old)
  show ?thesis
  proof (cases "trigger_validate_project_status (p_status old) (p_status (data old))")
    case (Inl m)
    from project_update_refused [of d pid old data m renv, OF Some Inl] show ?thesis by simp
  next
    case (Inr x)
    from project_update_accepted [of d pid old data x renv, OF Some Inr] Some show ?thesis by simp
  qed
qed






section \<open>The status of the project when a flow returns\<close>














section \<open>The version counter in the generation flow\<close>



end
